theory Spec2Isabelle
  imports Complex_Main "HOL-Library.Word" "HOL-Library.Sublist"
begin

text \<open>
  The browser-side scripts of the shop: the cart script (\<open>addToCart\<close>,
  \<open>updateQuantity\<close>, \<open>removeFromCart\<close>, \<open>applyCoupon\<close>, \<open>getCookie\<close>), the search
  script (\<open>searchProducts\<close>), filter.js (\<open>applyFilters\<close>), affiliate.js
  (\<open>requestWithdrawal\<close>, \<open>updateBankDetails\<close>) and main.js (\<open>showMessage\<close>,
  \<open>confirmAction\<close>, \<open>updateCartCount\<close>, \<open>formatCurrency\<close>).

  A function of a script becomes a function from what it reads (the page, the server's
  answers) to its run: the effects it performs, in order, and the exception that leaves
  it, if one does. The built-ins the functions call are written out from ECMAScript and
  the URL Standard.
\<close>

section \<open>JavaScript strings\<close>

text \<open>
  A JavaScript string is a sequence of 16-bit code units. String literals of the scripts
  are all ASCII (apart from two currency glyphs, written out below), so \<open>js ''abc''\<close>
  denotes the literal \<open>'abc'\<close>.
\<close>

type_synonym code_unit = "16 word"
type_synonym jsstring = "code_unit list"
type_synonym octet = "8 word"

definition js :: "string \<Rightarrow> jsstring" where
  "js s = map (\<lambda>c. of_nat (of_char c)) s"

text \<open>
  Exceptions and promise rejections: the built-ins' error classes, and \<open>Error m\<close> for
  \<open>new Error(m)\<close>.
\<close>

datatype error = URIError | TypeError | SyntaxError | Error jsstring

subsection \<open>\<open>String.prototype.trim\<close>, \<open>split\<close>, \<open>substring\<close>\<close>

text \<open>
  \<open>trim\<close> strips WhiteSpace and LineTerminator code units (ECMAScript 12.2, 12.3):
  TAB, LF, VT, FF, CR, SP, NBSP, the Unicode space separators and ZWNBSP.
\<close>

definition isWhiteSpace :: "code_unit \<Rightarrow> bool" where
  "isWhiteSpace c \<longleftrightarrow>
     c \<in> {0x09, 0x0A, 0x0B, 0x0C, 0x0D, 0x20, 0xA0, 0x1680, 0x2028, 0x2029, 0x202F, 0x205F,
          0x3000, 0xFEFF}
     \<or> (0x2000 \<le> c \<and> c \<le> 0x200A)"

definition trim :: "jsstring \<Rightarrow> jsstring" where
  "trim s = rev (dropWhile isWhiteSpace (rev (dropWhile isWhiteSpace s)))"

text \<open>\<open>s.split(sep)\<close> for a one-unit separator: always at least one piece.\<close>

fun split_on :: "code_unit \<Rightarrow> jsstring \<Rightarrow> jsstring list" where
  "split_on sep [] = [[]]"
| "split_on sep (c # cs) =
     (let ps = split_on sep cs in if c = sep then [] # ps else (c # hd ps) # tl ps)"

text \<open>\<open>s.substring(0, n)\<close> and \<open>s.substring(n)\<close> for a length \<open>n\<close>.\<close>

definition substring_to :: "nat \<Rightarrow> jsstring \<Rightarrow> jsstring" where
  "substring_to n s = take n s"

definition substring_from :: "nat \<Rightarrow> jsstring \<Rightarrow> jsstring" where
  "substring_from n s = drop n s"

subsection \<open>UTF-8 and UTF-16\<close>

definition is_lead_surrogate :: "code_unit \<Rightarrow> bool" where
  "is_lead_surrogate c \<longleftrightarrow> 0xD800 \<le> c \<and> c \<le> 0xDBFF"

definition is_trail_surrogate :: "code_unit \<Rightarrow> bool" where
  "is_trail_surrogate c \<longleftrightarrow> 0xDC00 \<le> c \<and> c \<le> 0xDFFF"

definition surrogate_pair :: "code_unit \<Rightarrow> code_unit \<Rightarrow> nat" where
  "surrogate_pair hi lo = (unat hi - 0xD800) * 0x400 + (unat lo - 0xDC00) + 0x10000"

text \<open>A string is well formed when it has no unpaired surrogate.\<close>

fun well_formed_utf16 :: "jsstring \<Rightarrow> bool" where
  "well_formed_utf16 [] = True"
| "well_formed_utf16 [c] = (\<not> is_lead_surrogate c \<and> \<not> is_trail_surrogate c)"
| "well_formed_utf16 (c # d # cs) =
     (if is_lead_surrogate c then is_trail_surrogate d \<and> well_formed_utf16 cs
      else \<not> is_trail_surrogate c \<and> well_formed_utf16 (d # cs))"

definition UTF16EncodeCodePoint :: "nat \<Rightarrow> jsstring" where
  "UTF16EncodeCodePoint cp =
     (if cp \<le> 0xFFFF then [of_nat cp]
      else [of_nat ((cp - 0x10000) div 0x400 + 0xD800), of_nat ((cp - 0x10000) mod 0x400 + 0xDC00)])"

definition utf8_encode :: "nat \<Rightarrow> octet list" where
  "utf8_encode cp =
     (if cp < 0x80 then [of_nat cp]
      else if cp < 0x800 then [of_nat (0xC0 + cp div 0x40), of_nat (0x80 + cp mod 0x40)]
      else if cp < 0x10000 then
        [of_nat (0xE0 + cp div 0x1000), of_nat (0x80 + cp div 0x40 mod 0x40),
         of_nat (0x80 + cp mod 0x40)]
      else
        [of_nat (0xF0 + cp div 0x40000), of_nat (0x80 + cp div 0x1000 mod 0x40),
         of_nat (0x80 + cp div 0x40 mod 0x40), of_nat (0x80 + cp mod 0x40)])"

definition is_continuation :: "octet \<Rightarrow> bool" where
  "is_continuation b \<longleftrightarrow> 0x80 \<le> b \<and> b \<le> 0xBF"

text \<open>
  The code point of a well-formed UTF-8 sequence of two to four octets: continuation
  octets in range, no overlong form, no surrogate, nothing beyond U+10FFFF.
\<close>

fun utf8_code_point :: "octet list \<Rightarrow> nat option" where
  "utf8_code_point [a, b] =
     (let v = (unat a - 0xC0) * 0x40 + (unat b - 0x80)
      in if is_continuation b \<and> 0x80 \<le> v then Some v else None)"
| "utf8_code_point [a, b, c] =
     (let v = (unat a - 0xE0) * 0x1000 + (unat b - 0x80) * 0x40 + (unat c - 0x80)
      in if is_continuation b \<and> is_continuation c \<and> 0x800 \<le> v \<and> (v < 0xD800 \<or> 0xDFFF < v)
         then Some v else None)"
| "utf8_code_point [a, b, c, d] =
     (let v = (unat a - 0xF0) * 0x40000 + (unat b - 0x80) * 0x1000 + (unat c - 0x80) * 0x40
              + (unat d - 0x80)
      in if is_continuation b \<and> is_continuation c \<and> is_continuation d
            \<and> 0x10000 \<le> v \<and> v \<le> 0x10FFFF
         then Some v else None)"
| "utf8_code_point _ = None"

subsection \<open>\<open>decodeURIComponent\<close>\<close>

definition hex_value :: "code_unit \<Rightarrow> nat option" where
  "hex_value c =
     (if 0x30 \<le> c \<and> c \<le> 0x39 then Some (unat c - 0x30)
      else if 0x41 \<le> c \<and> c \<le> 0x46 then Some (unat c - 0x41 + 10)
      else if 0x61 \<le> c \<and> c \<le> 0x66 then Some (unat c - 0x61 + 10)
      else None)"

definition ParseHexOctet :: "code_unit \<Rightarrow> code_unit \<Rightarrow> octet option" where
  "ParseHexOctet h l =
     (case hex_value h of
        None \<Rightarrow> None
      | Some a \<Rightarrow> (case hex_value l of None \<Rightarrow> None | Some b \<Rightarrow> Some (of_nat (16 * a + b))))"

text \<open>The number of leading 1 bits of an octet.\<close>

definition leading_ones :: "octet \<Rightarrow> nat" where
  "leading_ones B =
     (if B < 0x80 then 0 else if B < 0xC0 then 1 else if B < 0xE0 then 2
      else if B < 0xF0 then 3 else if B < 0xF8 then 4 else if B < 0xFC then 5
      else if B < 0xFE then 6 else if B < 0xFF then 7 else 8)"

text \<open>The \<open>j\<close> escapes \<open>%XX\<close> that must follow the first octet of a multi-octet sequence.\<close>

fun continuation_octets :: "nat \<Rightarrow> jsstring \<Rightarrow> (octet list \<times> jsstring) option" where
  "continuation_octets 0 s = Some ([], s)"
| "continuation_octets (Suc j) (p # h # l # s) =
     (if p = 0x25 then
        (case ParseHexOctet h l of
           None \<Rightarrow> None
         | Some B \<Rightarrow>
             (case continuation_octets j s of
                None \<Rightarrow> None
              | Some (bs, r) \<Rightarrow> Some (B # bs, r)))
      else None)"
| "continuation_octets (Suc j) s = None"

lemma continuation_octets_length:
  "continuation_octets j s = Some (bs, r) \<Longrightarrow> length r \<le> length s"
proof (induction j s arbitrary: bs r rule: continuation_octets.induct)
  case (2 j p h l s)
  then show ?case
    by (auto split: if_splits option.splits prod.splits) fastforce
qed auto

text \<open>
  ECMAScript's \<open>Decode\<close> with an empty set of preserved escapes, which is
  \<open>decodeURIComponent\<close>: a malformed escape throws URIError.
\<close>

function Decode :: "jsstring \<Rightarrow> error + jsstring" where
  "Decode [] = Inr []"
| "Decode (c # cs) =
     (if c \<noteq> 0x25 then
        (case Decode cs of Inl e \<Rightarrow> Inl e | Inr r \<Rightarrow> Inr (c # r))
      else
        (case cs of
           h # l # rest \<Rightarrow>
             (case ParseHexOctet h l of
                None \<Rightarrow> Inl URIError
              | Some B \<Rightarrow>
                  (let n = leading_ones B in
                   if n = 0 then
                     (case Decode rest of Inl e \<Rightarrow> Inl e | Inr r \<Rightarrow> Inr (of_nat (unat B) # r))
                   else if n = 1 \<or> n > 4 then Inl URIError
                   else
                     (case continuation_octets (n - 1) rest of
                        None \<Rightarrow> Inl URIError
                      | Some (bs, rest') \<Rightarrow>
                          (case utf8_code_point (B # bs) of
                             None \<Rightarrow> Inl URIError
                           | Some V \<Rightarrow>
                               (case Decode rest' of
                                  Inl e \<Rightarrow> Inl e
                                | Inr r \<Rightarrow> Inr (UTF16EncodeCodePoint V @ r))))))
         | _ \<Rightarrow> Inl URIError))"
  by pat_completeness auto
termination
  by (relation "measure length") (auto dest: continuation_octets_length)

definition decodeURIComponent :: "jsstring \<Rightarrow> error + jsstring" where
  "decodeURIComponent s = Decode s"

subsection \<open>\<open>encodeURIComponent\<close>\<close>

text \<open>The unescaped set: letters, digits and \<open>- _ . ! ~ * ' ( )\<close>.\<close>

definition is_alnum :: "code_unit \<Rightarrow> bool" where
  "is_alnum c \<longleftrightarrow> (0x30 \<le> c \<and> c \<le> 0x39) \<or> (0x41 \<le> c \<and> c \<le> 0x5A) \<or> (0x61 \<le> c \<and> c \<le> 0x7A)"

definition uri_unescaped :: "code_unit \<Rightarrow> bool" where
  "uri_unescaped c \<longleftrightarrow> is_alnum c \<or> c \<in> {0x2D, 0x5F, 0x2E, 0x21, 0x7E, 0x2A, 0x27, 0x28, 0x29}"

definition hex_digit :: "nat \<Rightarrow> code_unit" where
  "hex_digit d = (if d < 10 then of_nat (0x30 + d) else of_nat (0x41 + (d - 10)))"

definition percent_octet :: "octet \<Rightarrow> jsstring" where
  "percent_octet b = [0x25, hex_digit (unat b div 16), hex_digit (unat b mod 16)]"

definition percent_octets :: "octet list \<Rightarrow> jsstring" where
  "percent_octets bs = concat (map percent_octet bs)"

text \<open>
  ECMAScript's \<open>Encode\<close> with the unescaped set above: an unpaired surrogate throws
  URIError.
\<close>

fun Encode :: "jsstring \<Rightarrow> error + jsstring" where
  "Encode [] = Inr []"
| "Encode (c # cs) =
     (if uri_unescaped c then
        (case Encode cs of Inl e \<Rightarrow> Inl e | Inr r \<Rightarrow> Inr (c # r))
      else if is_trail_surrogate c then Inl URIError
      else if is_lead_surrogate c then
        (case cs of
           [] \<Rightarrow> Inl URIError
         | d # rest \<Rightarrow>
             (if is_trail_surrogate d then
                (case Encode rest of
                   Inl e \<Rightarrow> Inl e
                 | Inr r \<Rightarrow> Inr (percent_octets (utf8_encode (surrogate_pair c d)) @ r))
              else Inl URIError))
      else
        (case Encode cs of
           Inl e \<Rightarrow> Inl e
         | Inr r \<Rightarrow> Inr (percent_octets (utf8_encode (unat c)) @ r)))"

definition encodeURIComponent :: "jsstring \<Rightarrow> error + jsstring" where
  "encodeURIComponent s = Encode s"

section \<open>JavaScript values\<close>

text \<open>
  A Number is modelled by the exact value of the double (\<open>-0\<close> is identified with
  \<open>0\<close>: no operation used by the scripts tells them apart). Arrays and objects are the
  plain data \<open>JSON.parse\<close> produces; an object lists each of its keys once.
\<close>

datatype number = Fin rat | NaN | PosInfinity | NegInfinity

datatype jsval =
    JUndefined
  | JNull
  | JBool bool
  | JNum number
  | JStr jsstring
  | JArr "jsval list"
  | JObj "(jsstring \<times> jsval) list"

fun ToBoolean :: "jsval \<Rightarrow> bool" where
  "ToBoolean JUndefined = False"
| "ToBoolean JNull = False"
| "ToBoolean (JBool b) = b"
| "ToBoolean (JNum (Fin r)) = (r \<noteq> 0)"
| "ToBoolean (JNum NaN) = False"
| "ToBoolean (JNum PosInfinity) = True"
| "ToBoolean (JNum NegInfinity) = True"
| "ToBoolean (JStr s) = (s \<noteq> [])"
| "ToBoolean (JArr xs) = True"
| "ToBoolean (JObj fs) = True"

text \<open>\<open>a || b\<close>\<close>

definition js_or :: "jsval \<Rightarrow> jsval \<Rightarrow> jsval" where
  "js_or a b = (if ToBoolean a then a else b)"

text \<open>
  \<open>v.p\<close> for the property names the scripts read from parsed JSON (\<open>success\<close>,
  \<open>message\<close>, \<open>count\<close>, \<open>cartCount\<close>): none of them is a built-in property of a
  primitive, an array or \<open>Object.prototype\<close>. Reading a property of \<open>undefined\<close> or
  \<open>null\<close> throws TypeError.
\<close>

fun get_property :: "jsval \<Rightarrow> jsstring \<Rightarrow> error + jsval" where
  "get_property JUndefined p = Inl TypeError"
| "get_property JNull p = Inl TypeError"
| "get_property (JObj fs) p = Inr (case map_of fs p of None \<Rightarrow> JUndefined | Some x \<Rightarrow> x)"
| "get_property v p = Inr JUndefined"

subsection \<open>Number comparison\<close>

text \<open>\<open>a < b\<close> and \<open>a <= b\<close> on Numbers: false as soon as one side is NaN.\<close>

fun number_less :: "number \<Rightarrow> number \<Rightarrow> bool" where
  "number_less NaN b = False"
| "number_less a NaN = False"
| "number_less (Fin a) (Fin b) = (a < b)"
| "number_less (Fin a) PosInfinity = True"
| "number_less (Fin a) NegInfinity = False"
| "number_less PosInfinity b = False"
| "number_less NegInfinity (Fin b) = True"
| "number_less NegInfinity PosInfinity = True"
| "number_less NegInfinity NegInfinity = False"

fun number_less_eq :: "number \<Rightarrow> number \<Rightarrow> bool" where
  "number_less_eq NaN b = False"
| "number_less_eq a NaN = False"
| "number_less_eq a b = (\<not> number_less b a)"

subsection \<open>Conversions between strings and Numbers\<close>

text \<open>
  The conversions that depend on the binary64 format are parameters of the model: the
  digits \<open>Number::toString\<close> prints for a finite Number that is not an integer of
  magnitude at most \<open>2\<^sup>5\<^sup>3\<close>, \<open>StringToNumber\<close>, \<open>parseFloat\<close> of a string, and the
  rounding of an integer beyond \<open>2\<^sup>5\<^sup>3\<close> to the nearest double. Everything proved
  holds for every choice of them.
\<close>

record engine =
  NumberToString :: "rat \<Rightarrow> jsstring"
  StringToNumber :: "jsstring \<Rightarrow> number"
  parseFloat_string :: "jsstring \<Rightarrow> number"
  nearest_double :: "int \<Rightarrow> number"

definition digit_char :: "nat \<Rightarrow> code_unit" where
  "digit_char d = of_nat (0x30 + d)"

fun decimal_digits :: "nat \<Rightarrow> jsstring" where
  "decimal_digits n =
     (if n < 10 then [digit_char n] else decimal_digits (n div 10) @ [digit_char (n mod 10)])"

definition int_to_string :: "int \<Rightarrow> jsstring" where
  "int_to_string k = (if k < 0 then js ''-'' @ decimal_digits (nat (- k)) else decimal_digits (nat k))"

definition is_integral :: "rat \<Rightarrow> bool" where
  "is_integral r \<longleftrightarrow> of_int \<lfloor>r\<rfloor> = r"

text \<open>
  \<open>Number::toString\<close> prints the shortest digits that read back as the same double. Up
  to \<open>2\<^sup>5\<^sup>3\<close> every integer is a double of its own, so an integer there prints as its
  decimal digits; beyond, the digits printed are the engine's.
\<close>

definition Number_toString :: "engine \<Rightarrow> number \<Rightarrow> jsstring" where
  "Number_toString E n =
     (case n of
        Fin r \<Rightarrow>
          if is_integral r \<and> \<bar>r\<bar> \<le> 2 ^ 53 then int_to_string \<lfloor>r\<rfloor> else NumberToString E r
      | NaN \<Rightarrow> js ''NaN''
      | PosInfinity \<Rightarrow> js ''Infinity''
      | NegInfinity \<Rightarrow> js ''-Infinity'')"

text \<open>
  \<open>ToString\<close>; an array prints its elements joined by commas, \<open>undefined\<close> and \<open>null\<close>
  elements as the empty string.
\<close>

fun ToString :: "engine \<Rightarrow> jsval \<Rightarrow> jsstring"
  and join_elements :: "engine \<Rightarrow> jsval list \<Rightarrow> jsstring"
  and element_string :: "engine \<Rightarrow> jsval \<Rightarrow> jsstring" where
  "ToString E JUndefined = js ''undefined''"
| "ToString E JNull = js ''null''"
| "ToString E (JBool b) = (if b then js ''true'' else js ''false'')"
| "ToString E (JNum n) = Number_toString E n"
| "ToString E (JStr s) = s"
| "ToString E (JArr xs) = join_elements E xs"
| "ToString E (JObj fs) = js ''[object Object]''"
| "join_elements E [] = []"
| "join_elements E [x] = element_string E x"
| "join_elements E (x # y # ys) = element_string E x @ js '','' @ join_elements E (y # ys)"
| "element_string E JUndefined = []"
| "element_string E JNull = []"
| "element_string E (JBool b) = ToString E (JBool b)"
| "element_string E (JNum n) = ToString E (JNum n)"
| "element_string E (JStr s) = ToString E (JStr s)"
| "element_string E (JArr xs) = ToString E (JArr xs)"
| "element_string E (JObj fs) = ToString E (JObj fs)"

fun ToNumber :: "engine \<Rightarrow> jsval \<Rightarrow> number" where
  "ToNumber E JUndefined = NaN"
| "ToNumber E JNull = Fin 0"
| "ToNumber E (JBool b) = (if b then Fin 1 else Fin 0)"
| "ToNumber E (JNum n) = n"
| "ToNumber E (JStr s) = StringToNumber E s"
| "ToNumber E (JArr xs) = StringToNumber E (ToString E (JArr xs))"
| "ToNumber E (JObj fs) = StringToNumber E (ToString E (JObj fs))"

text \<open>The Number of an integer: exact up to \<open>2\<^sup>5\<^sup>3\<close>.\<close>

definition integer_number :: "engine \<Rightarrow> int \<Rightarrow> number" where
  "integer_number E k = (if \<bar>k\<bar> \<le> 2 ^ 53 then Fin (of_int k) else nearest_double E k)"

text \<open>
  \<open>parseInt(v)\<close> with no radix: leading white space, a sign, an optional \<open>0x\<close> prefix,
  then the longest run of digits; NaN when there is none.
\<close>

definition radix_digit :: "nat \<Rightarrow> code_unit \<Rightarrow> nat option" where
  "radix_digit R c = (case hex_value c of None \<Rightarrow> None | Some d \<Rightarrow> if d < R then Some d else None)"

definition digits_value :: "nat \<Rightarrow> jsstring \<Rightarrow> nat" where
  "digits_value R Z = foldl (\<lambda>a c. a * R + the (radix_digit R c)) 0 Z"

definition parse_unsigned :: "engine \<Rightarrow> int \<Rightarrow> jsstring \<Rightarrow> number" where
  "parse_unsigned E sign S =
     (let hex = (take 2 S = js ''0x'' \<or> take 2 S = js ''0X'');
          R = (if hex then 16 else 10);
          S' = (if hex then drop 2 S else S);
          Z = takeWhile (\<lambda>c. radix_digit R c \<noteq> None) S'
      in if Z = [] then NaN else integer_number E (sign * int (digits_value R Z)))"

definition parseInt :: "engine \<Rightarrow> jsval \<Rightarrow> number" where
  "parseInt E v =
     (let S = dropWhile isWhiteSpace (ToString E v)
      in case S of
           [] \<Rightarrow> NaN
         | c # cs \<Rightarrow>
             if c = 0x2D then parse_unsigned E (- 1) cs
             else if c = 0x2B then parse_unsigned E 1 cs
             else parse_unsigned E 1 S)"

text \<open>
  \<open>parseFloat(v)\<close>: a Number prints and parses back to itself (the digits
  \<open>Number::toString\<close> prints determine the double).
\<close>

definition parseFloat :: "engine \<Rightarrow> jsval \<Rightarrow> number" where
  "parseFloat E v = (case v of JNum n \<Rightarrow> n | _ \<Rightarrow> parseFloat_string E (ToString E v))"

section \<open>The page and what a script does to it\<close>

text \<open>
  What the scripts read from the browser: \<open>document.cookie\<close>, the elements by id (the
  \<open>value\<close> of a form control is a string; other elements have none), the
  page-injected registry \<open>window.URLS\<close> (\<open>JUndefined\<close> when the page does not define
  it) and the user's answer to a \<open>confirm\<close> dialog.
\<close>

record element =
  el_value :: "jsstring option"
  el_is_form :: bool

record page =
  document_cookie :: jsstring
  getElementById :: "jsstring \<Rightarrow> element option"
  window_URLS :: jsval
  confirm_answer :: "jsstring \<Rightarrow> bool"

text \<open>\<open>document.getElementById(i)?.value\<close>\<close>

definition optional_value :: "page \<Rightarrow> jsstring \<Rightarrow> jsval" where
  "optional_value P i =
     (case getElementById P i of
        None \<Rightarrow> JUndefined
      | Some el \<Rightarrow> (case el_value el of None \<Rightarrow> JUndefined | Some s \<Rightarrow> JStr s))"

text \<open>
  What a script does, in the order it does it. \<open>Fetch resource init\<close> is a call of
  \<open>fetch\<close>; the body records the argument of \<open>JSON.stringify\<close> or the form a
  \<open>FormData\<close> was built from. A \<open>setTimeout\<close> is recorded with its callback, not run.
\<close>

datatype body = JSON_stringify jsval | FormData jsstring

record request_init =
  http_method :: jsstring
  headers :: "(jsstring \<times> jsval) list"
  body :: "body option"

datatype timer_callback = Remove_alert | Reload_location

datatype effect =
    Fetch jsval "request_init option"
  | Insert_alert jsstring jsval
  | SetTimeout timer_callback nat
  | Location_reload
  | Set_location_href jsstring
  | Set_location_search jsstring
  | Set_textContent jsstring jsval
  | Confirm jsstring
  | Console_error jsstring error
  | Console_log jsstring "error option"

text \<open>
  A run of a function: the effects it performed, and the exception that left it, if any.
\<close>

type_synonym run = "effect list \<times> error option"

definition seq :: "run \<Rightarrow> run \<Rightarrow> run" where
  "seq a b = (case snd a of Some e \<Rightarrow> a | None \<Rightarrow> (fst a @ fst b, snd b))"

definition catch :: "run \<Rightarrow> (error \<Rightarrow> run) \<Rightarrow> run" where
  "catch a h = (case snd a of Some e \<Rightarrow> (fst a @ fst (h e), snd (h e)) | None \<Rightarrow> a)"

text \<open>
  The server's answer to a \<open>fetch\<close>: the promise rejects, or it resolves to a response
  with its \<open>ok\<close> flag and what \<open>response.json()\<close> gives (a parsed value, or a
  rejection).
\<close>

datatype response = Rejected error | Response bool "error + jsval"

text \<open>\<open>.then(response => response.json())\<close>\<close>

definition response_json :: "response \<Rightarrow> error + jsval" where
  "response_json r = (case r of Rejected e \<Rightarrow> Inl e | Response ok j \<Rightarrow> j)"

section \<open>main.js\<close>

text \<open>
  \<open>showMessage(message, type)\<close>: a \<open>div\<close> of class \<open>alert alert-type\<close> holding the
  message, inserted first in the body and removed after 5000 ms.
\<close>

definition showMessage :: "jsval \<Rightarrow> jsstring \<Rightarrow> run" where
  "showMessage message type =
     ([Insert_alert (js ''alert alert-'' @ type) message, SetTimeout Remove_alert 5000], None)"

definition confirmAction :: "page \<Rightarrow> jsstring \<Rightarrow> effect list \<times> bool" where
  "confirmAction P message = ([Confirm message], confirm_answer P message)"

text \<open>
  \<open>updateCartCount()\<close>; \<open>count\<close> is the server's answer to the count request, should
  it be sent.
\<close>

definition updateCartCount_then :: "page \<Rightarrow> jsval \<Rightarrow> run" where
  "updateCartCount_then P data =
     (case getElementById P (js ''cartCount'') of
        None \<Rightarrow> ([], None)
      | Some cartBadge \<Rightarrow>
          (case get_property data (js ''count'') of
             Inl e \<Rightarrow> ([], Some e)
           | Inr c \<Rightarrow> ([Set_textContent (js ''cartCount'') c], None)))"

definition updateCartCount_catch :: "error \<Rightarrow> run" where
  "updateCartCount_catch e = ([Console_log (js ''Cart count error:'') (Some e)], None)"

definition updateCartCount_chain :: "page \<Rightarrow> response \<Rightarrow> run" where
  "updateCartCount_chain P count =
     (case count of
        Rejected e \<Rightarrow> updateCartCount_catch e
      | Response ok j \<Rightarrow>
          if \<not> ok then updateCartCount_catch (Error (js ''Network response was not ok''))
          else
            (case j of
               Inl e \<Rightarrow> updateCartCount_catch e
             | Inr data \<Rightarrow> catch (updateCartCount_then P data) updateCartCount_catch))"

definition updateCartCount :: "page \<Rightarrow> response \<Rightarrow> run" where
  "updateCartCount P count =
     (if window_URLS P = JUndefined then
        ([Console_log (js ''Cart count URL not available'') None], None)
      else
        (case get_property (window_URLS P) (js ''cartCount'') of
           Inl e \<Rightarrow> ([], Some e)
         | Inr url \<Rightarrow>
             if \<not> ToBoolean url then
               ([Console_log (js ''Cart count URL not available'') None], None)
             else seq ([Fetch url None], None) (updateCartCount_chain P count)))"

section \<open>The cart script\<close>

text \<open>\<open>getCookie(name)\<close>, the same text in the cart script and in affiliate.js.\<close>

fun getCookie_loop :: "jsstring \<Rightarrow> jsstring list \<Rightarrow> error + jsval" where
  "getCookie_loop name [] = Inr JNull"
| "getCookie_loop name (c # cookies) =
     (let cookie = trim c in
      if substring_to (length name + 1) cookie = name @ js ''='' then
        (case decodeURIComponent (substring_from (length name + 1) cookie) of
           Inl e \<Rightarrow> Inl e
         | Inr v \<Rightarrow> Inr (JStr v))
      else getCookie_loop name cookies)"

definition getCookie :: "page \<Rightarrow> jsstring \<Rightarrow> error + jsval" where
  "getCookie P name =
     (if document_cookie P \<noteq> [] then getCookie_loop name (split_on 0x3B (document_cookie P))
      else Inr JNull)"

text \<open>
  \<open>fetch(...).then(response => response.json()).then(on_data).catch(on_error)\<close>: the
  callbacks run once the answer is there; an exception in \<open>on_data\<close> goes to
  \<open>on_error\<close>.
\<close>

definition promise_chain :: "response \<Rightarrow> (jsval \<Rightarrow> run) \<Rightarrow> (error \<Rightarrow> run) \<Rightarrow> run" where
  "promise_chain answer on_data on_error =
     (case response_json answer of
        Inl e \<Rightarrow> on_error e
      | Inr data \<Rightarrow> catch (on_data data) on_error)"

text \<open>
  The \<open>init\<close> object that \<open>addToCart\<close>, \<open>updateQuantity\<close>, \<open>applyCoupon\<close> and
  \<open>requestWithdrawal\<close> each write out: method POST, the headers \<open>Content-Type\<close> and
  \<open>X-CSRFToken\<close>, and \<open>JSON.stringify\<close> of a payload as body.
\<close>

definition json_post :: "jsval \<Rightarrow> jsval \<Rightarrow> request_init" where
  "json_post token payload =
     \<lparr>http_method = js ''POST'',
      headers = [(js ''Content-Type'', JStr (js ''application/json'')), (js ''X-CSRFToken'', token)],
      body = Some (JSON_stringify payload)\<rparr>"

text \<open>
  \<open>addToCart(productId)\<close>; \<open>answer\<close> is the server's answer to the request and
  \<open>count\<close> its answer to the cart-count request that \<open>updateCartCount\<close> may send.
\<close>

definition addToCart_then :: "page \<Rightarrow> response \<Rightarrow> jsval \<Rightarrow> run" where
  "addToCart_then P count data =
     (case get_property data (js ''success'') of
        Inl e \<Rightarrow> ([], Some e)
      | Inr success \<Rightarrow>
          if ToBoolean success then
            seq (showMessage (JStr (js ''Product added to cart!'')) (js ''success''))
              (updateCartCount P count)
          else
            (case get_property data (js ''message'') of
               Inl e \<Rightarrow> ([], Some e)
             | Inr message \<Rightarrow>
                 showMessage (js_or message (JStr (js ''Error adding to cart''))) (js ''danger'')))"

definition addToCart_catch :: "error \<Rightarrow> run" where
  "addToCart_catch e =
     seq ([Console_error (js ''Error:'') e], None)
       (showMessage (JStr (js ''Error adding to cart'')) (js ''danger''))"

definition addToCart :: "engine \<Rightarrow> page \<Rightarrow> jsval \<Rightarrow> response \<Rightarrow> response \<Rightarrow> run" where
  "addToCart E P productId answer count =
     (let quantity = js_or (optional_value P (js ''quantity_'' @ ToString E productId)) (JNum (Fin 1))
      in case getCookie P (js ''csrftoken'') of
           Inl e \<Rightarrow> ([], Some e)
         | Inr token \<Rightarrow>
             seq ([Fetch (JStr (js ''/orders/add-to-cart/'' @ ToString E productId @ js ''/''))
                     (Some (json_post token (JObj [(js ''quantity'', JNum (parseInt E quantity))])))],
                  None)
               (promise_chain answer (addToCart_then P count) addToCart_catch))"

text \<open>\<open>updateQuantity(itemId, quantity)\<close>\<close>

definition updateQuantity_then :: "jsval \<Rightarrow> run" where
  "updateQuantity_then data =
     (case get_property data (js ''success'') of
        Inl e \<Rightarrow> ([], Some e)
      | Inr success \<Rightarrow> if ToBoolean success then ([Location_reload], None) else ([], None))"

definition updateQuantity_catch :: "error \<Rightarrow> run" where
  "updateQuantity_catch e = ([Console_error (js ''Error:'') e], None)"

definition updateQuantity :: "engine \<Rightarrow> page \<Rightarrow> jsval \<Rightarrow> jsval \<Rightarrow> response \<Rightarrow> run" where
  "updateQuantity E P itemId quantity answer =
     (if number_less (ToNumber E quantity) (Fin 1) then ([], None)
      else
        (case getCookie P (js ''csrftoken'') of
           Inl e \<Rightarrow> ([], Some e)
         | Inr token \<Rightarrow>
             seq ([Fetch (JStr (js ''/orders/update-cart/'' @ ToString E itemId @ js ''/''))
                     (Some (json_post token (JObj [(js ''quantity'', JNum (parseInt E quantity))])))],
                  None)
               (promise_chain answer updateQuantity_then updateQuantity_catch)))"

text \<open>\<open>removeFromCart(itemId)\<close>\<close>

definition removeFromCart_then :: "jsval \<Rightarrow> run" where
  "removeFromCart_then data =
     (case get_property data (js ''success'') of
        Inl e \<Rightarrow> ([], Some e)
      | Inr success \<Rightarrow> if ToBoolean success then ([Location_reload], None) else ([], None))"

definition removeFromCart_catch :: "error \<Rightarrow> run" where
  "removeFromCart_catch e = ([Console_error (js ''Error:'') e], None)"

definition removeFromCart :: "engine \<Rightarrow> page \<Rightarrow> jsval \<Rightarrow> response \<Rightarrow> run" where
  "removeFromCart E P itemId answer =
     (case confirmAction P (js ''Remove this item from cart?'') of
        (asked, confirmed) \<Rightarrow>
          if confirmed then
            (case getCookie P (js ''csrftoken'') of
               Inl e \<Rightarrow> (asked, Some e)
             | Inr token \<Rightarrow>
                 seq (asked @
                      [Fetch (JStr (js ''/orders/remove-from-cart/'' @ ToString E itemId @ js ''/''))
                         (Some \<lparr>http_method = js ''POST'', headers = [(js ''X-CSRFToken'', token)],
                                 body = None\<rparr>)],
                      None)
                   (promise_chain answer removeFromCart_then removeFromCart_catch))
          else (asked, None))"

text \<open>\<open>applyCoupon()\<close>\<close>

definition applyCoupon_then :: "jsval \<Rightarrow> run" where
  "applyCoupon_then data =
     (case get_property data (js ''success'') of
        Inl e \<Rightarrow> ([], Some e)
      | Inr success \<Rightarrow>
          if ToBoolean success then
            seq (showMessage (JStr (js ''Coupon applied!'')) (js ''success''))
              ([SetTimeout Reload_location 1500], None)
          else
            (case get_property data (js ''message'') of
               Inl e \<Rightarrow> ([], Some e)
             | Inr message \<Rightarrow>
                 showMessage (js_or message (JStr (js ''Invalid coupon''))) (js ''danger'')))"

definition applyCoupon_catch :: "error \<Rightarrow> run" where
  "applyCoupon_catch e =
     seq ([Console_error (js ''Error:'') e], None)
       (showMessage (JStr (js ''Error applying coupon'')) (js ''danger''))"

definition applyCoupon :: "page \<Rightarrow> response \<Rightarrow> run" where
  "applyCoupon P answer =
     (let code = optional_value P (js ''coupon_code'')
      in if \<not> ToBoolean code then showMessage (JStr (js ''Please enter coupon code'')) (js ''warning'')
         else
           (case getCookie P (js ''csrftoken'') of
              Inl e \<Rightarrow> ([], Some e)
            | Inr token \<Rightarrow>
                seq ([Fetch (JStr (js ''/orders/apply-coupon/''))
                        (Some (json_post token (JObj [(js ''code'', code)])))],
                     None)
                  (promise_chain answer applyCoupon_then applyCoupon_catch)))"

section \<open>affiliate.js\<close>

text \<open>
  \<open>requestWithdrawal()\<close>. The currency glyph of the dialog text reads, in the file,
  as the three code units U+00E2 U+201A U+00B9.
\<close>

definition requestWithdrawal_then :: "jsval \<Rightarrow> run" where
  "requestWithdrawal_then data =
     (case get_property data (js ''success'') of
        Inl e \<Rightarrow> ([], Some e)
      | Inr success \<Rightarrow>
          if ToBoolean success then
            seq (showMessage (JStr (js ''Withdrawal request submitted!'')) (js ''success''))
              ([SetTimeout Reload_location 1500], None)
          else
            (case get_property data (js ''message'') of
               Inl e \<Rightarrow> ([], Some e)
             | Inr message \<Rightarrow>
                 showMessage (js_or message (JStr (js ''Error processing request''))) (js ''danger'')))"

definition requestWithdrawal_catch :: "error \<Rightarrow> run" where
  "requestWithdrawal_catch e =
     seq ([Console_error (js ''Error:'') e], None)
       (showMessage (JStr (js ''Error processing request'')) (js ''danger''))"

definition requestWithdrawal :: "engine \<Rightarrow> page \<Rightarrow> response \<Rightarrow> run" where
  "requestWithdrawal E P answer =
     (let amount = optional_value P (js ''withdrawalAmount'')
      in if \<not> ToBoolean amount \<or> number_less_eq (parseFloat E amount) (Fin 0) then
           showMessage (JStr (js ''Please enter valid amount'')) (js ''warning'')
         else
           (case confirmAction P
                   (js ''Request withdrawal of '' @ [0xE2, 0x201A, 0xB9] @ ToString E amount @ js ''?'') of
              (asked, confirmed) \<Rightarrow>
                if confirmed then
                  (case getCookie P (js ''csrftoken'') of
                     Inl e \<Rightarrow> (asked, Some e)
                   | Inr token \<Rightarrow>
                       seq (asked @
                            [Fetch (JStr (js ''/affiliate/request-withdrawal/''))
                               (Some (json_post token
                                  (JObj [(js ''amount'', JNum (parseFloat E amount))])))],
                            None)
                         (promise_chain answer requestWithdrawal_then requestWithdrawal_catch))
                else (asked, None)))"

text \<open>
  \<open>updateBankDetails()\<close>; \<open>new FormData(form)\<close> throws TypeError when the element is
  not a form.
\<close>

definition updateBankDetails_then :: "jsval \<Rightarrow> run" where
  "updateBankDetails_then data =
     (case get_property data (js ''success'') of
        Inl e \<Rightarrow> ([], Some e)
      | Inr success \<Rightarrow>
          if ToBoolean success then showMessage (JStr (js ''Bank details updated!'')) (js ''success'')
          else
            (case get_property data (js ''message'') of
               Inl e \<Rightarrow> ([], Some e)
             | Inr message \<Rightarrow>
                 showMessage (js_or message (JStr (js ''Error updating details''))) (js ''danger'')))"

definition updateBankDetails_catch :: "error \<Rightarrow> run" where
  "updateBankDetails_catch e =
     seq ([Console_error (js ''Error:'') e], None)
       (showMessage (JStr (js ''Error updating details'')) (js ''danger''))"

definition updateBankDetails :: "page \<Rightarrow> response \<Rightarrow> run" where
  "updateBankDetails P answer =
     (case getElementById P (js ''bankDetailsForm'') of
        None \<Rightarrow> ([], None)
      | Some form \<Rightarrow>
          if \<not> el_is_form form then ([], Some TypeError)
          else
            (case getCookie P (js ''csrftoken'') of
               Inl e \<Rightarrow> ([], Some e)
             | Inr token \<Rightarrow>
                 seq ([Fetch (JStr (js ''/affiliate/update-bank-details/''))
                         (Some \<lparr>http_method = js ''POST'', headers = [(js ''X-CSRFToken'', token)],
                                 body = Some (FormData (js ''bankDetailsForm''))\<rparr>)],
                      None)
                   (promise_chain answer updateBankDetails_then updateBankDetails_catch)))"

section \<open>The mutating operations\<close>

text \<open>The six user actions that change server state, and what running one does.\<close>

datatype operation =
    AddToCart jsval
  | UpdateQuantity jsval jsval
  | RemoveFromCart jsval
  | ApplyCoupon
  | RequestWithdrawal
  | UpdateBankDetails

fun perform :: "engine \<Rightarrow> page \<Rightarrow> operation \<Rightarrow> response \<Rightarrow> response \<Rightarrow> run" where
  "perform E P (AddToCart productId) answer count = addToCart E P productId answer count"
| "perform E P (UpdateQuantity itemId quantity) answer count = updateQuantity E P itemId quantity answer"
| "perform E P (RemoveFromCart itemId) answer count = removeFromCart E P itemId answer"
| "perform E P ApplyCoupon answer count = applyCoupon P answer"
| "perform E P RequestWithdrawal answer count = requestWithdrawal E P answer"
| "perform E P UpdateBankDetails answer count = updateBankDetails P answer"

section \<open>The search script\<close>

text \<open>
  \<open>searchProducts(query)\<close>. A truthy value that is not a string has no \<open>trim\<close>
  method: the call throws TypeError.
\<close>

definition searchProducts :: "jsval \<Rightarrow> run" where
  "searchProducts query =
     (if \<not> ToBoolean query then showMessage (JStr (js ''Please enter search term'')) (js ''warning'')
      else
        (case query of
           JStr q \<Rightarrow>
             if trim q = [] then showMessage (JStr (js ''Please enter search term'')) (js ''warning'')
             else
               (case encodeURIComponent q of
                  Inl e \<Rightarrow> ([], Some e)
                | Inr encoded \<Rightarrow> ([Set_location_href (js ''/products/search/?q='' @ encoded)], None))
         | _ \<Rightarrow> ([], Some TypeError)))"

section \<open>filter.js\<close>

subsection \<open>\<open>URLSearchParams\<close>\<close>

text \<open>
  The object holds a list of name-value pairs of scalar value strings: \<open>append\<close>
  converts its arguments, replacing every unpaired surrogate by U+FFFD.
\<close>

fun USVString :: "jsstring \<Rightarrow> jsstring" where
  "USVString [] = []"
| "USVString [c] = (if is_lead_surrogate c \<or> is_trail_surrogate c then [0xFFFD] else [c])"
| "USVString (c # d # cs) =
     (if is_lead_surrogate c then
        (if is_trail_surrogate d then c # d # USVString cs else 0xFFFD # USVString (d # cs))
      else if is_trail_surrogate c then 0xFFFD # USVString (d # cs)
      else c # USVString (d # cs))"

type_synonym params = "(jsstring \<times> jsstring) list"

definition URLSearchParams_append :: "params \<Rightarrow> jsstring \<Rightarrow> jsstring \<Rightarrow> params" where
  "URLSearchParams_append ps name v = ps @ [(USVString name, USVString v)]"

text \<open>The scalar values of a string (an unpaired surrogate reads as U+FFFD) and their UTF-8.\<close>

fun scalar_values :: "jsstring \<Rightarrow> nat list" where
  "scalar_values [] = []"
| "scalar_values [c] = (if is_lead_surrogate c \<or> is_trail_surrogate c then [0xFFFD] else [unat c])"
| "scalar_values (c # d # cs) =
     (if is_lead_surrogate c then
        (if is_trail_surrogate d then surrogate_pair c d # scalar_values cs
         else 0xFFFD # scalar_values (d # cs))
      else if is_trail_surrogate c then 0xFFFD # scalar_values (d # cs)
      else unat c # scalar_values (d # cs))"

definition utf8_bytes :: "jsstring \<Rightarrow> octet list" where
  "utf8_bytes s = concat (map utf8_encode (scalar_values s))"

text \<open>
  \<open>toString()\<close>: the application/x-www-form-urlencoded serializer of the URL Standard.
  A space becomes \<open>+\<close>; letters, digits and \<open>* - . _\<close> stay; every other octet is
  percent-encoded.
\<close>

definition urlencoded_safe :: "octet \<Rightarrow> bool" where
  "urlencoded_safe b \<longleftrightarrow>
     (0x30 \<le> b \<and> b \<le> 0x39) \<or> (0x41 \<le> b \<and> b \<le> 0x5A) \<or> (0x61 \<le> b \<and> b \<le> 0x7A)
     \<or> b \<in> {0x2A, 0x2D, 0x2E, 0x5F}"

definition urlencoded_octet :: "octet \<Rightarrow> jsstring" where
  "urlencoded_octet b =
     (if b = 0x20 then [0x2B] else if urlencoded_safe b then [of_nat (unat b)] else percent_octet b)"

definition urlencoded_string :: "jsstring \<Rightarrow> jsstring" where
  "urlencoded_string s = concat (map urlencoded_octet (utf8_bytes s))"

fun join_with :: "code_unit \<Rightarrow> jsstring list \<Rightarrow> jsstring" where
  "join_with sep [] = []"
| "join_with sep [p] = p"
| "join_with sep (p # q # ps) = p @ sep # join_with sep (q # ps)"

definition serialize_pair :: "jsstring \<times> jsstring \<Rightarrow> jsstring" where
  "serialize_pair nv = (case nv of (name, v) \<Rightarrow> urlencoded_string name @ 0x3D # urlencoded_string v)"

definition URLSearchParams_toString :: "params \<Rightarrow> jsstring" where
  "URLSearchParams_toString ps = join_with 0x26 (map serialize_pair ps)"

subsection \<open>\<open>applyFilters\<close>\<close>

definition applyFilters :: "engine \<Rightarrow> page \<Rightarrow> run" where
  "applyFilters E P =
     (let category = optional_value P (js ''categoryFilter'');
          minPrice = optional_value P (js ''minPrice'');
          maxPrice = optional_value P (js ''maxPrice'');
          sort = optional_value P (js ''sortFilter'');
          params = [];
          params = (if ToBoolean category
                    then URLSearchParams_append params (js ''category'') (ToString E category)
                    else params);
          params = (if ToBoolean minPrice
                    then URLSearchParams_append params (js ''min_price'') (ToString E minPrice)
                    else params);
          params = (if ToBoolean maxPrice
                    then URLSearchParams_append params (js ''max_price'') (ToString E maxPrice)
                    else params);
          params = (if ToBoolean sort
                    then URLSearchParams_append params (js ''sort'') (ToString E sort)
                    else params)
      in ([Set_location_search (URLSearchParams_toString params)], None))"

subsection \<open>Reading a query string\<close>

text \<open>
  The application/x-www-form-urlencoded parser of the URL Standard, by which the
  parameters of a query string are read back: split at \<open>&\<close>, drop empty pieces, split
  each piece at its first \<open>=\<close>, turn \<open>+\<close> into a space and percent-decode. The
  names and values are octet strings (the UTF-8 of the text).
\<close>

fun percent_decode :: "jsstring \<Rightarrow> octet list" where
  "percent_decode [] = []"
| "percent_decode (c # cs) =
     (if c = 0x25 then
        (case cs of
           h # l # rest \<Rightarrow>
             (case ParseHexOctet h l of
                Some b \<Rightarrow> b # percent_decode rest
              | None \<Rightarrow> 0x25 # percent_decode cs)
         | _ \<Rightarrow> 0x25 # percent_decode cs)
      else of_nat (unat c) # percent_decode cs)"

definition plus_to_space :: "code_unit \<Rightarrow> code_unit" where
  "plus_to_space c = (if c = 0x2B then 0x20 else c)"

definition parse_pair :: "jsstring \<Rightarrow> octet list \<times> octet list" where
  "parse_pair piece =
     (let name = takeWhile (\<lambda>c. c \<noteq> 0x3D) piece;
          v = drop (length name + 1) piece
      in (percent_decode (map plus_to_space name), percent_decode (map plus_to_space v)))"

definition urlencoded_parse :: "jsstring \<Rightarrow> (octet list \<times> octet list) list" where
  "urlencoded_parse input = map parse_pair (filter (\<lambda>piece. piece \<noteq> []) (split_on 0x26 input))"

text \<open>
  What the specification expects in the query string: for each filter control that is on
  the page with a non-empty value, its key with that value, in the order category,
  min\_price, max\_price, sort.
\<close>

definition control_parameter :: "page \<Rightarrow> string \<Rightarrow> string \<Rightarrow> (octet list \<times> octet list) list" where
  "control_parameter P key control =
     (case getElementById P (js control) of
        None \<Rightarrow> []
      | Some el \<Rightarrow>
          (case el_value el of
             None \<Rightarrow> []
           | Some s \<Rightarrow> if s = [] then [] else [(utf8_bytes (js key), utf8_bytes s)]))"

definition expected_parameters :: "page \<Rightarrow> (octet list \<times> octet list) list" where
  "expected_parameters P =
     control_parameter P ''category'' ''categoryFilter''
     @ control_parameter P ''min_price'' ''minPrice''
     @ control_parameter P ''max_price'' ''maxPrice''
     @ control_parameter P ''sort'' ''sortFilter''"

section \<open>\<open>formatCurrency\<close>\<close>

text \<open>
  \<open>x.toFixed(2)\<close>: the integer \<open>n\<close> with \<open>n / 100\<close> nearest to \<open>|x|\<close> (the larger of
  two), printed with a point before its last two digits.
\<close>

definition toFixed2 :: "engine \<Rightarrow> number \<Rightarrow> jsstring" where
  "toFixed2 E x =
     (case x of
        Fin r \<Rightarrow>
          (let s = (if r < 0 then js ''-'' else []);
               a = \<bar>r\<bar>
           in if a \<ge> 10 ^ 21 then s @ Number_toString E (Fin a)
              else
                (let n = nat \<lfloor>a * 100 + 1 / 2\<rfloor>;
                     m = decimal_digits n;
                     m = (if length m \<le> 2 then replicate (3 - length m) 0x30 @ m else m);
                     k = length m
                 in s @ take (k - 2) m @ js ''.'' @ drop (k - 2) m))
      | _ \<Rightarrow> Number_toString E x)"

text \<open>
  \<open>.replace(/\B(?=(\d{3})+(?!\d))/g, ',')\<close>: a comma goes in at every position that is
  not a word boundary and is followed by a run of digits whose length is a positive
  multiple of three.
\<close>

definition is_digit :: "code_unit \<Rightarrow> bool" where
  "is_digit c \<longleftrightarrow> 0x30 \<le> c \<and> c \<le> 0x39"

definition is_word_char :: "code_unit \<Rightarrow> bool" where
  "is_word_char c \<longleftrightarrow> is_alnum c \<or> c = 0x5F"

definition word_before :: "code_unit option \<Rightarrow> bool" where
  "word_before prev = (case prev of None \<Rightarrow> False | Some c \<Rightarrow> is_word_char c)"

definition word_after :: "jsstring \<Rightarrow> bool" where
  "word_after rest = (case rest of [] \<Rightarrow> False | c # cs \<Rightarrow> is_word_char c)"

definition digit_groups_ahead :: "jsstring \<Rightarrow> bool" where
  "digit_groups_ahead rest =
     (let d = length (takeWhile is_digit rest) in 0 < d \<and> d mod 3 = 0)"

definition separator_here :: "code_unit option \<Rightarrow> jsstring \<Rightarrow> jsstring" where
  "separator_here prev rest =
     (if word_before prev = word_after rest \<and> digit_groups_ahead rest then js '','' else [])"

fun insert_separators :: "code_unit option \<Rightarrow> jsstring \<Rightarrow> jsstring" where
  "insert_separators prev [] = separator_here prev []"
| "insert_separators prev (c # cs) = separator_here prev (c # cs) @ c # insert_separators (Some c) cs"

definition formatCurrency :: "engine \<Rightarrow> jsval \<Rightarrow> jsstring" where
  "formatCurrency E amount =
     [0x20B9] @ insert_separators None (toFixed2 E (parseFloat E amount))"

section \<open>Observations on a run\<close>

text \<open>A reload of the page, now or by a timer; an alert.\<close>

fun is_reload :: "effect \<Rightarrow> bool" where
  "is_reload Location_reload = True"
| "is_reload (SetTimeout Reload_location ms) = True"
| "is_reload e = False"

fun is_alert :: "effect \<Rightarrow> bool" where
  "is_alert (Insert_alert c m) = True"
| "is_alert e = False"

text \<open>
  The names of the cookies of a cookie string: of each piece between semicolons, trimmed,
  what stands before the first \<open>=\<close>.
\<close>

definition cookie_names :: "jsstring \<Rightarrow> jsstring list" where
  "cookie_names s = map (\<lambda>piece. takeWhile (\<lambda>c. c \<noteq> 0x3D) (trim piece)) (split_on 0x3B s)"

text \<open>
  An \<open>init\<close> object carries the CSRF token: it is there, its method is POST and its
  header \<open>X-CSRFToken\<close> holds what \<open>getCookie('csrftoken')\<close> returns.
\<close>

definition carries_csrf :: "page \<Rightarrow> request_init option \<Rightarrow> bool" where
  "carries_csrf P i \<longleftrightarrow>
     (\<exists>init token. i = Some init \<and> http_method init = js ''POST''
        \<and> getCookie P (js ''csrftoken'') = Inr token
        \<and> map_of (headers init) (js ''X-CSRFToken'') = Some token)"

section \<open>Concrete inputs\<close>

text \<open>
  An engine (its format-dependent conversions matter on the string \<open>500\<close> only), and
  a page with the cookie string of the specification's example and no element.
\<close>

definition example_engine :: engine where
  "example_engine =
     \<lparr>NumberToString = (\<lambda>r. []),
      StringToNumber = (\<lambda>s. if s = js ''500'' then Fin 500 else NaN),
      parseFloat_string = (\<lambda>s. if s = js ''500'' then Fin 500 else NaN),
      nearest_double = (\<lambda>k. NaN)\<rparr>"

definition example_page :: page where
  "example_page =
     \<lparr>document_cookie = js ''a=1; csrftoken=XYZ; b=2'', getElementById = (\<lambda>i. None),
      window_URLS = JUndefined, confirm_answer = (\<lambda>m. True)\<rparr>"


text \<open>
  A page of the shop: a coupon field, a withdrawal amount, the bank details form, the
  cart badge, three filter controls (one left empty) and the registry of count URLs.
\<close>

definition shop_page :: page where
  "shop_page =
     \<lparr>document_cookie = js ''a=1; csrftoken=XYZ; b=2'',
      getElementById = map_of
        [(js ''coupon_code'', \<lparr>el_value = Some (js ''SAVE10''), el_is_form = False\<rparr>),
         (js ''withdrawalAmount'', \<lparr>el_value = Some (js ''500''), el_is_form = False\<rparr>),
         (js ''bankDetailsForm'', \<lparr>el_value = None, el_is_form = True\<rparr>),
         (js ''cartCount'', \<lparr>el_value = None, el_is_form = False\<rparr>),
         (js ''quantity_7'', \<lparr>el_value = Some [], el_is_form = False\<rparr>),
         (js ''categoryFilter'', \<lparr>el_value = Some (js ''rings''), el_is_form = False\<rparr>),
         (js ''minPrice'', \<lparr>el_value = Some [], el_is_form = False\<rparr>),
         (js ''sortFilter'', \<lparr>el_value = Some (js ''price asc''), el_is_form = False\<rparr>)],
      window_URLS = JObj [(js ''cartCount'', JStr (js ''/orders/cart-count/''))],
      confirm_answer = (\<lambda>m. True)\<rparr>"

section \<open>The cookie reader\<close>

lemma split_on_nonempty: "split_on sep s \<noteq> []"
  by (cases s) (auto simp: Let_def)

lemma split_on_pieces:
  "prefix (hd (split_on sep s)) s \<and> (\<forall>p \<in> set (tl (split_on sep s)). sublist p s)"
proof (induction s)
  case Nil
  show ?case by simp
next
  case (Cons c cs)
  let ?ps = "split_on sep cs"
  have rest: "\<And>p. p \<in> set ?ps \<Longrightarrow> sublist p cs"
  proof -
    fix p assume "p \<in> set ?ps"
    then have "p = hd ?ps \<or> p \<in> set (tl ?ps)"
      using split_on_nonempty [of sep cs] by (cases ?ps) auto
    then show "sublist p cs"
      using Cons.IH by (auto intro: prefix_imp_sublist)
  qed
  show ?case
  proof (cases "c = sep")
    case True
    then show ?thesis using rest by (auto simp: Let_def sublist_Cons_right)
  next
    case False
    then show ?thesis using Cons.IH by (auto simp: Let_def sublist_Cons_right)
  qed
qed

lemma split_on_sublist: "p \<in> set (split_on sep s) \<Longrightarrow> sublist p s"
proof -
  assume "p \<in> set (split_on sep s)"
  then have "p = hd (split_on sep s) \<or> p \<in> set (tl (split_on sep s))"
    using split_on_nonempty [of sep s] by (cases "split_on sep s") auto
  then show ?thesis
    using split_on_pieces [of sep s] by (auto intro: prefix_imp_sublist)
qed

lemma trim_sublist: "sublist (trim s) s"
proof -
  have "suffix (dropWhile isWhiteSpace (rev (dropWhile isWhiteSpace s)))
          (rev (dropWhile isWhiteSpace s))"
    by (rule suffix_dropWhile)
  then have "prefix (trim s) (dropWhile isWhiteSpace s)"
    by (simp add: trim_def suffix_to_prefix)
  moreover have "suffix (dropWhile isWhiteSpace s) s"
    by (rule suffix_dropWhile)
  ultimately show ?thesis
    by (auto simp: sublist_altdef')
qed

lemma name_prefix_sublist:
  assumes "substring_to (length name + 1) cookie = name @ js ''=''"
  shows "sublist name cookie"
proof -
  have "prefix (name @ js ''='') cookie"
    using assms take_is_prefix [of "length name + 1" cookie] by (simp add: substring_to_def)
  then have "prefix name cookie"
    by (rule append_prefixD)
  then show ?thesis by (rule prefix_imp_sublist)
qed

lemma getCookie_loop_absent:
  "(\<And>c. c \<in> set cookies \<Longrightarrow> \<not> sublist name c) \<Longrightarrow> getCookie_loop name cookies = Inr JNull"
proof (induction cookies)
  case Nil
  show ?case by simp
next
  case (Cons c cookies)
  have "\<not> sublist name (trim c)"
    using Cons.prems [of c] trim_sublist [of c] by (auto dest: sublist_order.order.trans)
  then have "substring_to (length name + 1) (trim c) \<noteq> name @ js ''=''"
    using name_prefix_sublist by blast
  then show ?case using Cons by (simp add: Let_def)
qed

lemma getCookie_loop_null:
  "(\<And>c. c \<in> set cookies \<Longrightarrow> substring_to (length name + 1) (trim c) \<noteq> name @ js ''='') \<Longrightarrow>
     getCookie_loop name cookies = Inr JNull"
  by (induction cookies) (simp_all add: Let_def)

lemma name_of_matching_cookie:
  assumes "0x3D \<notin> set name" and "substring_to (length name + 1) cookie = name @ js ''=''"
  shows "takeWhile (\<lambda>c. c \<noteq> 0x3D) cookie = name"
proof -
  have "cookie = (name @ [0x3D]) @ drop (length name + 1) cookie"
    using assms(2) append_take_drop_id [of "length name + 1" cookie]
    by (simp add: substring_to_def js_def)
  then obtain rest where "cookie = name @ 0x3D # rest"
    by (metis append.assoc append_Cons append_Nil)
  moreover have "\<forall>c \<in> set name. c \<noteq> 0x3D"
    using assms(1) by auto
  ultimately show ?thesis
    by simp
qed

lemma getCookie_unnamed:
  assumes "0x3D \<notin> set name" and "name \<notin> set (cookie_names (document_cookie P))"
  shows "getCookie P name = Inr JNull"
proof -
  have "substring_to (length name + 1) (trim c) \<noteq> name @ js ''=''"
    if "c \<in> set (split_on 0x3B (document_cookie P))" for c
  proof
    assume "substring_to (length name + 1) (trim c) = name @ js ''=''"
    then have "takeWhile (\<lambda>c. c \<noteq> 0x3D) (trim c) = name"
      using assms(1) by (rule name_of_matching_cookie [rotated])
    then show False
      using assms(2) that by (auto simp: cookie_names_def)
  qed
  then show ?thesis
    by (simp add: getCookie_def getCookie_loop_null)
qed

text \<open>
  Claim C6. On the cookie string \<open>a=1; csrftoken=XYZ; b=2\<close>, \<open>getCookie('csrftoken')\<close>
  returns \<open>XYZ\<close>. And \<open>getCookie\<close> returns \<open>null\<close> for a name that does not occur in the
  cookie string: for every name that is no run of consecutive code units of it, and also
  for every name (without \<open>=\<close>) that is not the name of one of its cookies, though it may
  be part of one.
\<close>

theorem getCookie_spec:
  "(document_cookie P = js ''a=1; csrftoken=XYZ; b=2'' \<longrightarrow>
      getCookie P (js ''csrftoken'') = Inr (JStr (js ''XYZ'')))
   \<and> (\<not> sublist name (document_cookie P) \<longrightarrow> getCookie P name = Inr JNull)
   \<and> (0x3D \<notin> set name \<and> name \<notin> set (cookie_names (document_cookie P)) \<longrightarrow>
      getCookie P name = Inr JNull)"
proof (intro conjI impI)
  assume "document_cookie P = js ''a=1; csrftoken=XYZ; b=2''"
  then show "getCookie P (js ''csrftoken'') = Inr (JStr (js ''XYZ''))"
    by (simp add: getCookie_def js_def Let_def trim_def isWhiteSpace_def substring_to_def
        substring_from_def decodeURIComponent_def)
next
  assume absent: "\<not> sublist name (document_cookie P)"
  have "\<And>c. c \<in> set (split_on 0x3B (document_cookie P)) \<Longrightarrow> \<not> sublist name c"
    using absent split_on_sublist sublist_order.order.trans by blast
  then show "getCookie P name = Inr JNull"
    by (simp add: getCookie_def getCookie_loop_absent)
next
  assume "0x3D \<notin> set name \<and> name \<notin> set (cookie_names (document_cookie P))"
  then show "getCookie P name = Inr JNull"
    by (simp add: getCookie_unnamed)
qed

theorem getCookie_spec_witness:
  "getCookie example_page (js ''csrftoken'') = Inr (JStr (js ''XYZ''))
   \<and> getCookie example_page (js ''sessionid'') = Inr JNull
   \<and> getCookie example_page (js ''token'') = Inr JNull"
proof -
  have c: "document_cookie example_page = js ''a=1; csrftoken=XYZ; b=2''"
    by (simp add: example_page_def)
  have a: "\<not> sublist (js ''sessionid'') (document_cookie example_page)"
    by (simp add: example_page_def js_def sublist_Cons_right)
  have "cookie_names (js ''a=1; csrftoken=XYZ; b=2'') = [js ''a'', js ''csrftoken'', js ''b'']"
    by (simp add: cookie_names_def js_def Let_def trim_def isWhiteSpace_def)
  then have n: "0x3D \<notin> set (js ''token'')
      \<and> js ''token'' \<notin> set (cookie_names (document_cookie example_page))"
    by (simp add: c) (simp add: js_def)
  show ?thesis
    using getCookie_spec [of example_page "js ''csrftoken''"]
      getCookie_spec [of example_page "js ''sessionid''"]
      getCookie_spec [of example_page "js ''token''"] c a n by blast
qed

section \<open>Quantity updates\<close>

lemma nonpositive_less_one:
  "number_less_eq n (Fin 0) \<Longrightarrow> number_less n (Fin 1)"
  by (cases n) auto

text \<open>
  Claim C5. For every item id and every quantity whose numeric value is 0 or negative,
  \<open>updateQuantity\<close> returns at once: it performs no effect at all, so no network request
  is issued.
\<close>

theorem updateQuantity_rejects_nonpositive:
  "number_less_eq (ToNumber E quantity) (Fin 0) \<Longrightarrow>
     updateQuantity E P itemId quantity answer = ([], None)"
  by (simp add: updateQuantity_def nonpositive_less_one)

theorem updateQuantity_rejects_nonpositive_witness:
  "updateQuantity example_engine example_page (JNum (Fin 7)) (JNum (Fin 0))
      (Response True (Inr (JObj [(js ''success'', JBool True)]))) = ([], None)
   \<and> updateQuantity example_engine example_page (JNum (Fin 7)) (JNum (Fin (- 3)))
      (Response True (Inr (JObj [(js ''success'', JBool True)]))) = ([], None)"
proof -
  have "number_less_eq (ToNumber example_engine (JNum (Fin 0))) (Fin 0)"
    and "number_less_eq (ToNumber example_engine (JNum (Fin (- 3)))) (Fin 0)"
    by simp_all
  then show ?thesis
    using updateQuantity_rejects_nonpositive [of example_engine "JNum (Fin 0)"]
      updateQuantity_rejects_nonpositive [of example_engine "JNum (Fin (- 3))"]
    by blast
qed

section \<open>The currency formatter\<close>

lemma toFixed2_example: "toFixed2 E (Fin (2469135 / 2)) = js ''1234567.50''"
proof -
  have n: "\<bar>2469135 / 2 :: rat\<bar> * 100 + 1 / 2 = of_int 246913501 / of_int 2"
    by simp
  have "\<lfloor>of_int 246913501 / of_int 2 :: rat\<rfloor> = 246913501 div 2"
    by (rule floor_divide_of_int_eq)
  then have f: "nat \<lfloor>\<bar>2469135 / 2 :: rat\<bar> * 100 + 1 / 2\<rfloor> = 123456750"
    by (simp add: n)
  have d: "decimal_digits 123456750 = js ''123456750''"
    by (simp add: js_def digit_char_def)
  have small: "\<not> \<bar>2469135 / 2 :: rat\<bar> \<ge> 10 ^ 21" "\<not> (2469135 / 2 :: rat) < 0"
    by simp_all
  show ?thesis
    unfolding toFixed2_def number.case Let_def f d if_not_P [OF small(1)] if_not_P [OF small(2)]
    by (simp add: js_def)
qed

lemma insert_separators_example:
  "insert_separators None (js ''1234567.50'') = js ''1,234,567.50''"
  by (simp add: js_def separator_here_def word_before_def word_after_def digit_groups_ahead_def
      is_digit_def is_word_char_def is_alnum_def)

text \<open>
  Claim C7. \<open>formatCurrency(1234567.5)\<close> is the rupee sign U+20B9 followed by
  \<open>1,234,567.50\<close>: two decimals, thousands separated by commas, the glyph in front.
\<close>

theorem formatCurrency_example:
  "formatCurrency E (JNum (Fin (2469135 / 2))) = [0x20B9] @ js ''1,234,567.50''"
  by (simp only: formatCurrency_def parseFloat_def jsval.case toFixed2_example
      insert_separators_example)

section \<open>Evaluation on the concrete inputs\<close>

lemma js_append: "js a @ js b = js (a @ b)"
  by (simp add: js_def)


lemma shop_cookie: "getCookie shop_page (js ''csrftoken'') = Inr (JStr (js ''XYZ''))"
  by (simp add: shop_page_def getCookie_def js_def Let_def trim_def isWhiteSpace_def
      substring_to_def substring_from_def decodeURIComponent_def)

lemma shop_coupon: "optional_value shop_page (js ''coupon_code'') = JStr (js ''SAVE10'')"
  by (simp add: shop_page_def optional_value_def js_def)

lemma Number_toString_seven: "Number_toString E (Fin 7) = js ''7''"
  by (simp add: Number_toString_def is_integral_def int_to_string_def digit_char_def js_def)

lemma parseInt_one: "parseInt E (JNum (Fin 1)) = Fin 1"
  by (simp add: parseInt_def Number_toString_def is_integral_def int_to_string_def digit_char_def
      isWhiteSpace_def parse_unsigned_def js_def radix_digit_def hex_value_def digits_value_def
      integer_number_def Let_def)

lemma parseInt_two: "parseInt E (JNum (Fin 2)) = Fin 2"
  by (simp add: parseInt_def Number_toString_def is_integral_def int_to_string_def digit_char_def
      isWhiteSpace_def parse_unsigned_def js_def radix_digit_def hex_value_def digits_value_def
      integer_number_def Let_def)

section \<open>The requests of the mutating operations\<close>

subsection \<open>What the callbacks do not do\<close>

lemma showMessage_no_request: "Fetch u i \<notin> set (fst (showMessage m t))"
  by (simp add: showMessage_def)

lemma updateCartCount_chain_no_request: "Fetch u i \<notin> set (fst (updateCartCount_chain P count))"
  by (auto simp: updateCartCount_chain_def updateCartCount_catch_def updateCartCount_then_def
      catch_def split: response.splits sum.splits option.splits)

lemma updateCartCount_requests:
  "Fetch u i \<in> set (fst (updateCartCount P count)) \<Longrightarrow>
     i = None \<and> get_property (window_URLS P) (js ''cartCount'') = Inr u"
  using updateCartCount_chain_no_request [of u i P count]
  by (auto simp: updateCartCount_def seq_def split: if_splits sum.splits option.splits)

lemma catch_set:
  "x \<in> set (fst (catch a h)) \<Longrightarrow> x \<in> set (fst a) \<or> (\<exists>e. x \<in> set (fst (h e)))"
  by (auto simp: catch_def split: option.splits)

lemma promise_chain_set:
  "x \<in> set (fst (promise_chain answer on_data on_error)) \<Longrightarrow>
     (\<exists>data. x \<in> set (fst (on_data data))) \<or> (\<exists>e. x \<in> set (fst (on_error e)))"
  by (auto simp: promise_chain_def split: sum.splits dest: catch_set)

lemma addToCart_then_requests:
  "Fetch u i \<in> set (fst (addToCart_then P count data)) \<Longrightarrow>
     i = None \<and> get_property (window_URLS P) (js ''cartCount'') = Inr u"
  by (auto simp: addToCart_then_def seq_def showMessage_def
      split: sum.splits if_splits option.splits dest: updateCartCount_requests)

lemma addToCart_catch_no_request: "Fetch u i \<notin> set (fst (addToCart_catch e))"
  by (simp add: addToCart_catch_def seq_def showMessage_def)

lemma updateQuantity_then_no_request: "Fetch u i \<notin> set (fst (updateQuantity_then data))"
  by (auto simp: updateQuantity_then_def split: sum.splits)

lemma updateQuantity_catch_no_request: "Fetch u i \<notin> set (fst (updateQuantity_catch e))"
  by (simp add: updateQuantity_catch_def)

lemma removeFromCart_then_no_request: "Fetch u i \<notin> set (fst (removeFromCart_then data))"
  by (auto simp: removeFromCart_then_def split: sum.splits)

lemma removeFromCart_catch_no_request: "Fetch u i \<notin> set (fst (removeFromCart_catch e))"
  by (simp add: removeFromCart_catch_def)

lemma applyCoupon_then_no_request: "Fetch u i \<notin> set (fst (applyCoupon_then data))"
  by (auto simp: applyCoupon_then_def seq_def showMessage_def split: sum.splits)

lemma applyCoupon_catch_no_request: "Fetch u i \<notin> set (fst (applyCoupon_catch e))"
  by (simp add: applyCoupon_catch_def seq_def showMessage_def)

lemma requestWithdrawal_then_no_request: "Fetch u i \<notin> set (fst (requestWithdrawal_then data))"
  by (auto simp: requestWithdrawal_then_def seq_def showMessage_def split: sum.splits)

lemma requestWithdrawal_catch_no_request: "Fetch u i \<notin> set (fst (requestWithdrawal_catch e))"
  by (simp add: requestWithdrawal_catch_def seq_def showMessage_def)

lemma updateBankDetails_then_no_request: "Fetch u i \<notin> set (fst (updateBankDetails_then data))"
  by (auto simp: updateBankDetails_then_def showMessage_def split: sum.splits)

lemma updateBankDetails_catch_no_request: "Fetch u i \<notin> set (fst (updateBankDetails_catch e))"
  by (simp add: updateBankDetails_catch_def seq_def showMessage_def)

lemma json_post_carries:
  "getCookie P (js ''csrftoken'') = Inr token \<Longrightarrow> carries_csrf P (Some (json_post token payload))"
  by (simp add: carries_csrf_def json_post_def js_def)

lemma addToCart_requests:
  assumes "Fetch u i \<in> set (fst (addToCart E P productId answer count))"
  shows "carries_csrf P i \<or> (i = None \<and> get_property (window_URLS P) (js ''cartCount'') = Inr u)"
proof (cases "getCookie P (js ''csrftoken'')")
  case (Inl e)
  then show ?thesis using assms by (simp add: addToCart_def Let_def)
next
  case (Inr token)
  then have "Fetch u i \<in> set (fst (promise_chain answer (addToCart_then P count) addToCart_catch))
             \<or> i = Some (json_post token (JObj [(js ''quantity'', JNum (parseInt E
                  (js_or (optional_value P (js ''quantity_'' @ ToString E productId)) (JNum (Fin 1)))))]))"
    using assms by (auto simp: addToCart_def Let_def seq_def)
  then show ?thesis
    using json_post_carries [OF Inr] addToCart_then_requests addToCart_catch_no_request
    by (auto dest!: promise_chain_set)
qed

lemma updateQuantity_requests:
  assumes "Fetch u i \<in> set (fst (updateQuantity E P itemId quantity answer))"
  shows "carries_csrf P i"
proof (cases "getCookie P (js ''csrftoken'')")
  case (Inl e)
  then show ?thesis using assms by (simp add: updateQuantity_def split: if_splits)
next
  case (Inr token)
  then have "Fetch u i \<in> set (fst (promise_chain answer updateQuantity_then updateQuantity_catch))
             \<or> i = Some (json_post token (JObj [(js ''quantity'', JNum (parseInt E quantity))]))"
    using assms by (auto simp: updateQuantity_def seq_def split: if_splits)
  then show ?thesis
    using json_post_carries [OF Inr] updateQuantity_then_no_request updateQuantity_catch_no_request
    by (auto dest!: promise_chain_set)
qed

lemma removeFromCart_requests:
  assumes "Fetch u i \<in> set (fst (removeFromCart E P itemId answer))"
  shows "carries_csrf P i"
proof (cases "getCookie P (js ''csrftoken'')")
  case (Inl e)
  then show ?thesis
    using assms by (simp add: removeFromCart_def confirmAction_def split: if_splits)
next
  case (Inr token)
  then have "Fetch u i \<in> set (fst (promise_chain answer removeFromCart_then removeFromCart_catch))
             \<or> i = Some \<lparr>http_method = js ''POST'', headers = [(js ''X-CSRFToken'', token)],
                          body = None\<rparr>"
    using assms by (auto simp: removeFromCart_def confirmAction_def seq_def split: if_splits)
  then show ?thesis
    using Inr removeFromCart_then_no_request removeFromCart_catch_no_request
    by (auto simp: carries_csrf_def dest!: promise_chain_set)
qed

lemma applyCoupon_requests:
  assumes "Fetch u i \<in> set (fst (applyCoupon P answer))"
  shows "carries_csrf P i"
proof (cases "getCookie P (js ''csrftoken'')")
  case (Inl e)
  then show ?thesis
    using assms by (simp add: applyCoupon_def Let_def showMessage_def split: if_splits)
next
  case (Inr token)
  then have "Fetch u i \<in> set (fst (promise_chain answer applyCoupon_then applyCoupon_catch))
             \<or> i = Some (json_post token (JObj [(js ''code'', optional_value P (js ''coupon_code''))]))"
    using assms by (auto simp: applyCoupon_def Let_def seq_def showMessage_def split: if_splits)
  then show ?thesis
    using json_post_carries [OF Inr] applyCoupon_then_no_request applyCoupon_catch_no_request
    by (auto dest!: promise_chain_set)
qed

lemma requestWithdrawal_requests:
  assumes "Fetch u i \<in> set (fst (requestWithdrawal E P answer))"
  shows "carries_csrf P i"
proof (cases "getCookie P (js ''csrftoken'')")
  case (Inl e)
  then show ?thesis
    using assms
    by (simp add: requestWithdrawal_def Let_def showMessage_def confirmAction_def split: if_splits)
next
  case (Inr token)
  then have "Fetch u i \<in> set (fst (promise_chain answer requestWithdrawal_then requestWithdrawal_catch))
             \<or> i = Some (json_post token (JObj [(js ''amount'', JNum (parseFloat E
                   (optional_value P (js ''withdrawalAmount''))))]))"
    using assms
    by (auto simp: requestWithdrawal_def Let_def seq_def showMessage_def confirmAction_def
        split: if_splits)
  then show ?thesis
    using json_post_carries [OF Inr] requestWithdrawal_then_no_request
      requestWithdrawal_catch_no_request
    by (auto dest!: promise_chain_set)
qed

lemma updateBankDetails_requests:
  assumes "Fetch u i \<in> set (fst (updateBankDetails P answer))"
  shows "carries_csrf P i"
proof (cases "getCookie P (js ''csrftoken'')")
  case (Inl e)
  then show ?thesis
    using assms by (simp add: updateBankDetails_def split: option.splits if_splits)
next
  case (Inr token)
  then have "Fetch u i \<in> set (fst (promise_chain answer updateBankDetails_then updateBankDetails_catch))
             \<or> i = Some \<lparr>http_method = js ''POST'', headers = [(js ''X-CSRFToken'', token)],
                          body = Some (FormData (js ''bankDetailsForm''))\<rparr>"
    using assms by (auto simp: updateBankDetails_def seq_def split: option.splits if_splits)
  then show ?thesis
    using Inr updateBankDetails_then_no_request updateBankDetails_catch_no_request
    by (auto simp: carries_csrf_def dest!: promise_chain_set)
qed

lemma perform_requests:
  "Fetch u i \<in> set (fst (perform E P op answer count)) \<Longrightarrow>
     carries_csrf P i \<or> (i = None \<and> get_property (window_URLS P) (js ''cartCount'') = Inr u)"
  by (cases op)
    (auto dest: addToCart_requests updateQuantity_requests removeFromCart_requests
      applyCoupon_requests requestWithdrawal_requests updateBankDetails_requests)

text \<open>
  Claim C1. Every request that one of the six mutating operations (add to cart, update
  quantity, remove from cart, apply coupon, withdrawal, bank details) sends with an
  \<open>init\<close> object is a POST whose header \<open>X-CSRFToken\<close> holds what
  \<open>getCookie('csrftoken')\<close> returned. The only other request such a run can contain has
  no \<open>init\<close>: the read of the cart count, at the URL of the registry.
\<close>

theorem mutating_requests_carry_csrf:
  "(Fetch url (Some init) \<in> set (fst (perform E P op answer count)) \<longrightarrow>
      http_method init = js ''POST''
      \<and> (\<exists>token. getCookie P (js ''csrftoken'') = Inr token
                \<and> map_of (headers init) (js ''X-CSRFToken'') = Some token))
   \<and> (Fetch url None \<in> set (fst (perform E P op answer count)) \<longrightarrow>
      get_property (window_URLS P) (js ''cartCount'') = Inr url)"
  by (auto dest!: perform_requests simp: carries_csrf_def)

theorem mutating_requests_carry_csrf_witness:
  "Fetch (JStr (js ''/orders/apply-coupon/''))
     (Some (json_post (JStr (js ''XYZ'')) (JObj [(js ''code'', JStr (js ''SAVE10''))])))
     \<in> set (fst (perform example_engine shop_page ApplyCoupon (Rejected TypeError) (Rejected TypeError)))
   \<and> http_method (json_post (JStr (js ''XYZ'')) (JObj [(js ''code'', JStr (js ''SAVE10''))])) = js ''POST''
   \<and> map_of (headers (json_post (JStr (js ''XYZ'')) (JObj [(js ''code'', JStr (js ''SAVE10''))])))
        (js ''X-CSRFToken'') = Some (JStr (js ''XYZ''))"
proof -
  have sent: "Fetch (JStr (js ''/orders/apply-coupon/''))
     (Some (json_post (JStr (js ''XYZ'')) (JObj [(js ''code'', JStr (js ''SAVE10''))])))
     \<in> set (fst (perform example_engine shop_page ApplyCoupon (Rejected TypeError) (Rejected TypeError)))"
    by (simp add: applyCoupon_def shop_coupon shop_cookie seq_def) (simp add: js_def)
  show ?thesis
    using mutating_requests_carry_csrf [of "JStr (js ''/orders/apply-coupon/'')"
        "json_post (JStr (js ''XYZ'')) (JObj [(js ''code'', JStr (js ''SAVE10''))])"
        example_engine shop_page ApplyCoupon "Rejected TypeError" "Rejected TypeError"]
      sent shop_cookie
    by auto
qed

section \<open>Application-level failure\<close>

lemma catch_returned: "snd a = None \<Longrightarrow> catch a h = a"
  by (simp add: catch_def)

lemma showMessage_returns: "snd (showMessage m t) = None"
  by (simp add: showMessage_def)

lemma alert_shown: "Insert_alert (js ''alert alert-'' @ t) m \<in> set (fst (showMessage m t))"
  by (simp add: showMessage_def)

text \<open>The chain of each operation on an envelope whose \<open>success\<close> is \<open>false\<close>.\<close>

lemma addToCart_chain_failure:
  assumes "get_property data (js ''success'') = Inr (JBool False)"
    and "get_property data (js ''message'') = Inr message"
  shows "promise_chain (Response ok (Inr data)) (addToCart_then P count) addToCart_catch =
           showMessage (js_or message (JStr (js ''Error adding to cart''))) (js ''danger'')"
  using assms
  by (simp add: promise_chain_def response_json_def addToCart_then_def catch_returned
      showMessage_returns)

lemma applyCoupon_chain_failure:
  assumes "get_property data (js ''success'') = Inr (JBool False)"
    and "get_property data (js ''message'') = Inr message"
  shows "promise_chain (Response ok (Inr data)) applyCoupon_then applyCoupon_catch =
           showMessage (js_or message (JStr (js ''Invalid coupon''))) (js ''danger'')"
  using assms
  by (simp add: promise_chain_def response_json_def applyCoupon_then_def catch_returned
      showMessage_returns)

lemma requestWithdrawal_chain_failure:
  assumes "get_property data (js ''success'') = Inr (JBool False)"
    and "get_property data (js ''message'') = Inr message"
  shows "promise_chain (Response ok (Inr data)) requestWithdrawal_then requestWithdrawal_catch =
           showMessage (js_or message (JStr (js ''Error processing request''))) (js ''danger'')"
  using assms
  by (simp add: promise_chain_def response_json_def requestWithdrawal_then_def catch_returned
      showMessage_returns)

lemma updateBankDetails_chain_failure:
  assumes "get_property data (js ''success'') = Inr (JBool False)"
    and "get_property data (js ''message'') = Inr message"
  shows "promise_chain (Response ok (Inr data)) updateBankDetails_then updateBankDetails_catch =
           showMessage (js_or message (JStr (js ''Error updating details''))) (js ''danger'')"
  using assms
  by (simp add: promise_chain_def response_json_def updateBankDetails_then_def catch_returned
      showMessage_returns)

lemma updateQuantity_chain_failure:
  assumes "get_property data (js ''success'') = Inr (JBool False)"
  shows "promise_chain (Response ok (Inr data)) updateQuantity_then updateQuantity_catch = ([], None)"
  using assms
  by (simp add: promise_chain_def response_json_def updateQuantity_then_def catch_def)

lemma removeFromCart_chain_failure:
  assumes "get_property data (js ''success'') = Inr (JBool False)"
  shows "promise_chain (Response ok (Inr data)) removeFromCart_then removeFromCart_catch = ([], None)"
  using assms
  by (simp add: promise_chain_def response_json_def removeFromCart_then_def catch_def)

text \<open>
  Claim C2, as amended. When \<open>addToCart\<close>, \<open>applyCoupon\<close>, \<open>requestWithdrawal\<close> or
  \<open>updateBankDetails\<close> has sent its request and the response envelope has \<open>success\<close>
  equal to \<open>false\<close>, the operation shows a danger toast whose text is the envelope's
  \<open>message\<close> when that is truthy and the operation's fallback text otherwise.
  \<open>updateQuantity\<close> and \<open>removeFromCart\<close> show no toast then.
\<close>

theorem failure_danger_toast:
  assumes "Fetch url (Some init) \<in> set (fst (perform E P op (Response ok (Inr data)) count))"
    and "get_property data (js ''success'') = Inr (JBool False)"
    and "get_property data (js ''message'') = Inr message"
  shows "case op of
           AddToCart productId \<Rightarrow>
             Insert_alert (js ''alert alert-danger'')
               (js_or message (JStr (js ''Error adding to cart'')))
               \<in> set (fst (perform E P op (Response ok (Inr data)) count))
         | ApplyCoupon \<Rightarrow>
             Insert_alert (js ''alert alert-danger'') (js_or message (JStr (js ''Invalid coupon'')))
               \<in> set (fst (perform E P op (Response ok (Inr data)) count))
         | RequestWithdrawal \<Rightarrow>
             Insert_alert (js ''alert alert-danger'')
               (js_or message (JStr (js ''Error processing request'')))
               \<in> set (fst (perform E P op (Response ok (Inr data)) count))
         | UpdateBankDetails \<Rightarrow>
             Insert_alert (js ''alert alert-danger'')
               (js_or message (JStr (js ''Error updating details'')))
               \<in> set (fst (perform E P op (Response ok (Inr data)) count))
         | UpdateQuantity itemId quantity \<Rightarrow>
             \<not> list_ex is_alert (fst (perform E P op (Response ok (Inr data)) count))
         | RemoveFromCart itemId \<Rightarrow>
             \<not> list_ex is_alert (fst (perform E P op (Response ok (Inr data)) count))"
proof (cases op)
  case (AddToCart productId)
  then show ?thesis
    using assms alert_shown [of "js ''danger''"]
    by (auto simp: addToCart_def Let_def seq_def addToCart_chain_failure js_append
        split: sum.splits)
next
  case (UpdateQuantity itemId quantity)
  then show ?thesis
    using assms
    by (auto simp: updateQuantity_def seq_def updateQuantity_chain_failure
        split: sum.splits if_splits)
next
  case (RemoveFromCart itemId)
  then show ?thesis
    using assms
    by (auto simp: removeFromCart_def confirmAction_def seq_def removeFromCart_chain_failure
        split: sum.splits if_splits)
next
  case ApplyCoupon
  then show ?thesis
    using assms alert_shown [of "js ''danger''"]
    by (auto simp: applyCoupon_def Let_def seq_def applyCoupon_chain_failure js_append
        showMessage_def split: sum.splits if_splits)
next
  case RequestWithdrawal
  then show ?thesis
    using assms alert_shown [of "js ''danger''"]
    by (auto simp: requestWithdrawal_def Let_def seq_def requestWithdrawal_chain_failure js_append
        confirmAction_def showMessage_def split: sum.splits if_splits)
next
  case UpdateBankDetails
  then show ?thesis
    using assms alert_shown [of "js ''danger''"]
    by (auto simp: updateBankDetails_def seq_def updateBankDetails_chain_failure js_append
        split: sum.splits if_splits option.splits)
qed

theorem failure_danger_toast_witness:
  "Insert_alert (js ''alert alert-danger'') (JStr (js ''Error adding to cart''))
     \<in> set (fst (perform example_engine shop_page (AddToCart (JNum (Fin 7)))
                   (Response True (Inr (JObj [(js ''success'', JBool False)]))) (Rejected TypeError)))"
proof -
  have sent: "Fetch (JStr (js ''/orders/add-to-cart/7/''))
     (Some (json_post (JStr (js ''XYZ'')) (JObj [(js ''quantity'', JNum (Fin 1))])))
     \<in> set (fst (perform example_engine shop_page (AddToCart (JNum (Fin 7)))
                   (Response True (Inr (JObj [(js ''success'', JBool False)]))) (Rejected TypeError)))"
    by (simp add: addToCart_def shop_cookie seq_def Number_toString_seven js_append)
      (simp add: optional_value_def shop_page_def js_def js_or_def parseInt_one)
  have s: "get_property (JObj [(js ''success'', JBool False)]) (js ''success'') = Inr (JBool False)"
    by simp
  have m: "get_property (JObj [(js ''success'', JBool False)]) (js ''message'') = Inr JUndefined"
    by (simp add: js_def)
  show ?thesis
    using failure_danger_toast [OF sent s m] by (simp add: js_or_def)
qed

text \<open>
  The claim as stated fails for \<open>updateQuantity\<close>: on an envelope with \<open>success\<close> false
  and a message, the run consists of the request and nothing else.
\<close>

theorem updateQuantity_failure_silent:
  "fst (perform example_engine shop_page (UpdateQuantity (JNum (Fin 7)) (JNum (Fin 2)))
          (Response True (Inr (JObj [(js ''success'', JBool False),
                                     (js ''message'', JStr (js ''Out of stock''))])))
          (Rejected TypeError)) =
     [Fetch (JStr (js ''/orders/update-cart/7/''))
        (Some (json_post (JStr (js ''XYZ'')) (JObj [(js ''quantity'', JNum (Fin 2))])))]"
proof -
  have "get_property (JObj [(js ''success'', JBool False), (js ''message'', JStr (js ''Out of stock''))])
          (js ''success'') = Inr (JBool False)"
    by (simp add: js_def)
  then show ?thesis
    by (simp add: updateQuantity_def shop_cookie seq_def updateQuantity_chain_failure
        Number_toString_seven parseInt_two js_append)
qed

section \<open>Coupons\<close>

text \<open>
  Claim C8. When the server answers \<open>applyCoupon\<close> with \<open>success\<close> false and the message
  \<open>Coupon expired\<close>, the run is the request, a danger toast with the text
  \<open>Coupon expired\<close> and the timer that removes the toast; the page is not reloaded, now
  or by a timer. (The server answers a request that was sent: the coupon field is filled
  and the cookie could be read.)
\<close>

theorem applyCoupon_expired:
  assumes "ToBoolean (optional_value P (js ''coupon_code''))"
    and "getCookie P (js ''csrftoken'') = Inr token"
    and "map_of fs (js ''success'') = Some (JBool False)"
    and "map_of fs (js ''message'') = Some (JStr (js ''Coupon expired''))"
  shows "applyCoupon P (Response ok (Inr (JObj fs))) =
           ([Fetch (JStr (js ''/orders/apply-coupon/''))
               (Some (json_post token (JObj [(js ''code'', optional_value P (js ''coupon_code''))]))),
             Insert_alert (js ''alert alert-danger'') (JStr (js ''Coupon expired'')),
             SetTimeout Remove_alert 5000],
            None)
         \<and> \<not> list_ex is_reload (fst (applyCoupon P (Response ok (Inr (JObj fs)))))"
proof -
  have then_run: "applyCoupon_then (JObj fs) =
      ([Insert_alert (js ''alert alert-danger'') (JStr (js ''Coupon expired'')),
        SetTimeout Remove_alert 5000], None)"
    using assms(3,4) by (simp add: applyCoupon_then_def showMessage_def js_or_def js_def)
  have "promise_chain (Response ok (Inr (JObj fs))) applyCoupon_then applyCoupon_catch =
      ([Insert_alert (js ''alert alert-danger'') (JStr (js ''Coupon expired'')),
        SetTimeout Remove_alert 5000], None)"
    by (simp add: promise_chain_def response_json_def then_run catch_def)
  then have run: "applyCoupon P (Response ok (Inr (JObj fs))) =
           ([Fetch (JStr (js ''/orders/apply-coupon/''))
               (Some (json_post token (JObj [(js ''code'', optional_value P (js ''coupon_code''))]))),
             Insert_alert (js ''alert alert-danger'') (JStr (js ''Coupon expired'')),
             SetTimeout Remove_alert 5000],
            None)"
    using assms(1,2) by (simp add: applyCoupon_def Let_def seq_def)
  show ?thesis
    unfolding run by simp
qed

theorem applyCoupon_expired_witness:
  "applyCoupon shop_page
     (Response True (Inr (JObj [(js ''success'', JBool False),
                                (js ''message'', JStr (js ''Coupon expired''))]))) =
     ([Fetch (JStr (js ''/orders/apply-coupon/''))
         (Some (json_post (JStr (js ''XYZ'')) (JObj [(js ''code'', JStr (js ''SAVE10''))]))),
       Insert_alert (js ''alert alert-danger'') (JStr (js ''Coupon expired'')),
       SetTimeout Remove_alert 5000],
      None)"
proof -
  have a: "ToBoolean (optional_value shop_page (js ''coupon_code''))"
    unfolding shop_coupon by (simp add: js_def)
  have s: "map_of [(js ''success'', JBool False), (js ''message'', JStr (js ''Coupon expired''))]
             (js ''success'') = Some (JBool False)"
    by (simp add: js_def)
  have m: "map_of [(js ''success'', JBool False), (js ''message'', JStr (js ''Coupon expired''))]
             (js ''message'') = Some (JStr (js ''Coupon expired''))"
    by (simp add: js_def)
  show ?thesis
    using applyCoupon_expired [OF a shop_cookie s m, of True] by (simp add: shop_coupon)
qed

section \<open>Adding to the cart\<close>

lemma showMessage_no_reload: "\<not> list_ex is_reload (fst (showMessage m t))"
  by (simp add: showMessage_def)

















section \<open>Searching\<close>

lemma trim_empty_iff: "trim q = [] \<longleftrightarrow> list_all isWhiteSpace q"
proof
  assume "trim q = []"
  then have "\<forall>c \<in> set (dropWhile isWhiteSpace q). isWhiteSpace c"
    by (simp add: trim_def)
  then have "dropWhile isWhiteSpace q = []"
    using hd_dropWhile [of isWhiteSpace q] by (cases "dropWhile isWhiteSpace q") auto
  then show "list_all isWhiteSpace q"
    by (simp add: list_all_iff)
next
  assume "list_all isWhiteSpace q"
  then have d: "dropWhile isWhiteSpace q = []"
    by (simp add: list_all_iff)
  show "trim q = []"
    unfolding trim_def by (simp only: d rev.simps dropWhile.simps)
qed

lemma well_formed_tail:
  "well_formed_utf16 (c # cs) \<Longrightarrow> \<not> is_lead_surrogate c \<Longrightarrow> well_formed_utf16 cs"
  by (cases cs) auto

lemma well_formed_no_trail: "well_formed_utf16 (c # cs) \<Longrightarrow> is_trail_surrogate c \<Longrightarrow> is_lead_surrogate c"
  by (cases cs) (auto split: if_splits)

lemma lead_not_trail: "is_lead_surrogate c \<Longrightarrow> \<not> is_trail_surrogate c"
  by (auto simp: is_lead_surrogate_def is_trail_surrogate_def word_le_nat_alt)

lemma unescaped_not_surrogate: "uri_unescaped c \<Longrightarrow> \<not> is_lead_surrogate c"
  by (auto simp: uri_unescaped_def is_alnum_def is_lead_surrogate_def word_le_nat_alt)

lemma Encode_well_formed: "well_formed_utf16 q \<Longrightarrow> \<exists>encoded. Encode q = Inr encoded"
proof (induction q rule: Encode.induct)
  case 1
  show ?case by simp
next
  case (2 c cs)
  show ?case
  proof (cases "uri_unescaped c")
    case True
    then have "well_formed_utf16 cs"
      using "2.prems" unescaped_not_surrogate well_formed_tail by blast
    then obtain r where "Encode cs = Inr r"
      using "2.IH"(1) True by blast
    then show ?thesis using True by simp
  next
    case False
    have not_trail: "\<not> is_trail_surrogate c"
      using "2.prems" well_formed_no_trail lead_not_trail by blast
    show ?thesis
    proof (cases "is_lead_surrogate c")
      case True
      then obtain d rest where cs: "cs = d # rest" and d: "is_trail_surrogate d"
        and rest: "well_formed_utf16 rest"
        using "2.prems" by (cases cs) auto
      then obtain r where "Encode rest = Inr r"
        using "2.IH"(2) False not_trail True by blast
      then show ?thesis
        using False not_trail True cs d by simp
    next
      case lead: False
      then have "well_formed_utf16 cs"
        using "2.prems" well_formed_tail by blast
      then obtain r where "Encode cs = Inr r"
        using "2.IH"(3) False not_trail lead by blast
      then show ?thesis
        using False not_trail lead by simp
    qed
  qed
qed

text \<open>
  Claim C4, as amended. For every string that is empty or consists of white space only,
  \<open>searchProducts\<close> shows the warning toast and does not navigate; for every other string
  that has no unpaired surrogate it navigates to \<open>/products/search/?q=\<close> followed by
  \<open>encodeURIComponent\<close> of the query.
\<close>

theorem searchProducts_spec:
  "(list_all isWhiteSpace q \<longrightarrow>
      searchProducts (JStr q) =
        ([Insert_alert (js ''alert alert-warning'') (JStr (js ''Please enter search term'')),
          SetTimeout Remove_alert 5000], None))
   \<and> (\<not> list_all isWhiteSpace q \<and> well_formed_utf16 q \<longrightarrow>
      (\<exists>encoded. encodeURIComponent q = Inr encoded
         \<and> searchProducts (JStr q) =
             ([Set_location_href (js ''/products/search/?q='' @ encoded)], None)))"
proof (intro conjI impI)
  assume "list_all isWhiteSpace q"
  then have "trim q = []"
    by (simp add: trim_empty_iff)
  then show "searchProducts (JStr q) =
        ([Insert_alert (js ''alert alert-warning'') (JStr (js ''Please enter search term'')),
          SetTimeout Remove_alert 5000], None)"
    by (simp add: searchProducts_def showMessage_def js_append)
next
  assume a: "\<not> list_all isWhiteSpace q \<and> well_formed_utf16 q"
  then have "trim q \<noteq> []" and "q \<noteq> []"
    by (auto simp: trim_empty_iff)
  moreover obtain encoded where "encodeURIComponent q = Inr encoded"
    using a Encode_well_formed by (auto simp: encodeURIComponent_def)
  ultimately show "\<exists>encoded. encodeURIComponent q = Inr encoded
         \<and> searchProducts (JStr q) =
             ([Set_location_href (js ''/products/search/?q='' @ encoded)], None)"
    by (simp add: searchProducts_def)
qed

lemma encode_gold_ring: "encodeURIComponent (js ''gold ring'') = Inr (js ''gold%20ring'')"
  by (simp add: encodeURIComponent_def js_def uri_unescaped_def is_alnum_def
      is_trail_surrogate_def is_lead_surrogate_def percent_octets_def percent_octet_def
      utf8_encode_def hex_digit_def)

theorem searchProducts_spec_witness:
  "searchProducts (JStr (js ''  '')) =
     ([Insert_alert (js ''alert alert-warning'') (JStr (js ''Please enter search term'')),
       SetTimeout Remove_alert 5000], None)
   \<and> searchProducts (JStr (js ''gold ring'')) =
     ([Set_location_href (js ''/products/search/?q=gold%20ring'')], None)"
proof -
  have blank: "list_all isWhiteSpace (js ''  '')"
    by (simp add: js_def isWhiteSpace_def)
  have search: "\<not> list_all isWhiteSpace (js ''gold ring'') \<and> well_formed_utf16 (js ''gold ring'')"
    by (simp add: js_def isWhiteSpace_def is_lead_surrogate_def is_trail_surrogate_def)
  show ?thesis
    using searchProducts_spec [of "js ''  ''"] searchProducts_spec [of "js ''gold ring''"] blank search
    by (auto simp: encode_gold_ring js_append)
qed

text \<open>
  The claim as stated fails on a string that is not blank but holds an unpaired
  surrogate: \<open>encodeURIComponent\<close> throws URIError and nothing is navigated.
\<close>

theorem searchProducts_unpaired_surrogate:
  "\<not> list_all isWhiteSpace [0xD800] \<and> searchProducts (JStr [0xD800]) = ([], Some URIError)"
  by (simp add: searchProducts_def trim_def isWhiteSpace_def encodeURIComponent_def
      uri_unescaped_def is_alnum_def is_trail_surrogate_def is_lead_surrogate_def)

section \<open>Filters\<close>

subsection \<open>Percent-encoding and its reading\<close>

lemma octet_bound: "unat (b :: octet) < 256"
  using unsigned_less [of b, where 'a = nat] by simp

lemma hex_digit_cases:
  "d < 16 \<Longrightarrow> d = 0 \<or> d = 1 \<or> d = 2 \<or> d = 3 \<or> d = 4 \<or> d = 5 \<or> d = 6 \<or> d = 7 \<or> d = 8
     \<or> d = 9 \<or> d = 10 \<or> d = 11 \<or> d = 12 \<or> d = 13 \<or> d = 14 \<or> d = (15 :: nat)"
  by arith

lemma hex_value_hex_digit: "d < 16 \<Longrightarrow> hex_value (hex_digit d) = Some d"
  by (drule hex_digit_cases) (elim disjE, simp_all add: hex_value_def hex_digit_def)

lemma hex_digit_plain:
  "d < 16 \<Longrightarrow> hex_digit d \<noteq> 0x2B \<and> hex_digit d \<noteq> 0x26 \<and> hex_digit d \<noteq> 0x3D"
  by (drule hex_digit_cases) (elim disjE, simp_all add: hex_digit_def)

lemma octet_nibbles: "unat (b :: octet) div 16 < 16" "unat b mod 16 < 16"
  using octet_bound [of b] by auto

lemma ParseHexOctet_percent:
  "ParseHexOctet (hex_digit (unat b div 16)) (hex_digit (unat b mod 16)) = Some b"
  by (simp add: ParseHexOctet_def hex_value_hex_digit octet_nibbles)

lemma widen_octet: "unat (ucast (b :: octet) :: code_unit) = unat b"
  using octet_bound [of b] by (simp add: unsigned_ucast_eq take_bit_nat_eq_self)

lemma widen_octet_eq: "(ucast (b :: octet) :: code_unit) = of_nat n \<Longrightarrow> n < 256 \<Longrightarrow> unat b = n"
proof -
  assume a: "(ucast b :: code_unit) = of_nat n" and n: "n < 256"
  have "unat (ucast b :: code_unit) = unat (of_nat n :: code_unit)"
    using a by simp
  then show ?thesis
    using n by (simp add: widen_octet unat_of_nat)
qed

lemma safe_range:
  "urlencoded_safe b \<Longrightarrow> unat b \<noteq> 0x2B \<and> unat b \<noteq> 0x25 \<and> unat b \<noteq> 0x26 \<and> unat b \<noteq> 0x3D"
  by (auto simp: urlencoded_safe_def word_le_nat_alt)

lemma safe_unit:
  assumes "urlencoded_safe b"
  shows "(ucast b :: code_unit) \<noteq> 0x2B" "(ucast b :: code_unit) \<noteq> 0x25"
    "(ucast b :: code_unit) \<noteq> 0x26" "(ucast b :: code_unit) \<noteq> 0x3D"
  using safe_range [OF assms] widen_octet_eq [of b "0x2B"] widen_octet_eq [of b "0x25"]
    widen_octet_eq [of b "0x26"] widen_octet_eq [of b "0x3D"]
  by auto

lemma percent_decode_octet:
  "percent_decode (map plus_to_space (urlencoded_octet b) @ rest) = b # percent_decode rest"
proof (cases "b = 0x20")
  case True
  then show ?thesis
    by (simp add: urlencoded_octet_def plus_to_space_def)
next
  case space: False
  show ?thesis
  proof (cases "urlencoded_safe b")
    case True
    then show ?thesis
      using space safe_unit [OF True]
      by (simp add: urlencoded_octet_def plus_to_space_def widen_octet)
  next
    case False
    then show ?thesis
      using space hex_digit_plain [OF octet_nibbles(1), of b] hex_digit_plain [OF octet_nibbles(2), of b]
      by (simp add: urlencoded_octet_def percent_octet_def plus_to_space_def ParseHexOctet_percent)
  qed
qed

lemma urlencoded_octet_plain:
  "c \<in> set (urlencoded_octet b) \<Longrightarrow> c \<noteq> 0x26 \<and> c \<noteq> 0x3D"
  using safe_unit [of b] hex_digit_plain [OF octet_nibbles(1), of b]
    hex_digit_plain [OF octet_nibbles(2), of b]
  by (auto simp: urlencoded_octet_def percent_octet_def split: if_splits)

lemma percent_decode_octets:
  "percent_decode (map plus_to_space (concat (map urlencoded_octet bs)) @ rest)
     = bs @ percent_decode rest"
  by (induction bs) (simp_all add: percent_decode_octet)

lemma urlencoded_string_decode:
  "percent_decode (map plus_to_space (urlencoded_string s)) = utf8_bytes s"
  using percent_decode_octets [of "utf8_bytes s" "[]"] by (simp add: urlencoded_string_def)

lemma urlencoded_string_plain:
  "0x26 \<notin> set (urlencoded_string s)" "0x3D \<notin> set (urlencoded_string s)"
  using urlencoded_octet_plain by (auto simp: urlencoded_string_def)


lemma split_on_plain: "sep \<notin> set p \<Longrightarrow> split_on sep p = [p]"
  by (induction p) (auto simp: Let_def)

lemma split_on_append:
  "sep \<notin> set p \<Longrightarrow> split_on sep (p @ sep # rest) = p # split_on sep rest"
  by (induction p) (auto simp: Let_def)

lemma split_on_join:
  "ps \<noteq> [] \<Longrightarrow> (\<And>p. p \<in> set ps \<Longrightarrow> sep \<notin> set p) \<Longrightarrow>
     split_on sep (join_with sep ps) = ps"
proof (induction sep ps rule: join_with.induct)
  case (1 sep)
  then show ?case by simp
next
  case (2 sep p)
  then show ?case by (simp add: split_on_plain)
next
  case (3 sep p q ps)
  have "split_on sep (join_with sep (q # ps)) = q # ps"
    using 3 by simp
  then show ?case
    using "3.prems"(2) [of p] by (simp add: split_on_append)
qed

lemma parse_serialized_pair:
  "parse_pair (serialize_pair nv) = (utf8_bytes (fst nv), utf8_bytes (snd nv))"
proof (cases nv)
  case (Pair name v)
  have "\<forall>c \<in> set (urlencoded_string name). c \<noteq> 0x3D"
    using urlencoded_string_plain(2) [of name] by auto
  then have "takeWhile (\<lambda>c. c \<noteq> 0x3D) (urlencoded_string name @ 0x3D # urlencoded_string v)
          = urlencoded_string name"
    by simp
  then show ?thesis
    by (simp add: Pair parse_pair_def serialize_pair_def Let_def urlencoded_string_decode)
qed

lemma serialize_pair_plain: "0x26 \<notin> set (serialize_pair nv)" "serialize_pair nv \<noteq> []"
  using urlencoded_string_plain(1) by (auto simp: serialize_pair_def split: prod.splits)

lemma urlencoded_roundtrip:
  "urlencoded_parse (URLSearchParams_toString ps) = map (\<lambda>(name, v). (utf8_bytes name, utf8_bytes v)) ps"
proof (cases "ps = []")
  case True
  then show ?thesis
    by (simp add: urlencoded_parse_def URLSearchParams_toString_def)
next
  case False
  then have "split_on 0x26 (join_with 0x26 (map serialize_pair ps)) = map serialize_pair ps"
    using serialize_pair_plain(1) by (intro split_on_join) auto
  moreover have "filter (\<lambda>piece. piece \<noteq> []) (map serialize_pair ps) = map serialize_pair ps"
    using serialize_pair_plain(2) by (simp add: filter_id_conv)
  ultimately show ?thesis
    by (simp add: urlencoded_parse_def URLSearchParams_toString_def parse_serialized_pair
        case_prod_unfold)
qed


lemma plain_unit: "\<not> is_lead_surrogate c \<Longrightarrow> \<not> is_trail_surrogate c \<Longrightarrow>
    scalar_values (c # cs) = unat c # scalar_values cs"
  by (cases cs) auto

lemma replacement_plain: "\<not> is_lead_surrogate 0xFFFD" "\<not> is_trail_surrogate 0xFFFD"
  by (simp_all add: is_lead_surrogate_def is_trail_surrogate_def)

lemma replacement_unit: "scalar_values (0xFFFD # cs) = 0xFFFD # scalar_values cs"
  by (simp add: plain_unit replacement_plain)

lemma scalar_values_USVString: "scalar_values (USVString s) = scalar_values s"
  by (induction s rule: USVString.induct) (auto simp: replacement_unit plain_unit)

lemma utf8_bytes_USVString: "utf8_bytes (USVString s) = utf8_bytes s"
  by (simp add: utf8_bytes_def scalar_values_USVString)


lemma entry_parameter:
  "map (\<lambda>(name, v). (utf8_bytes name, utf8_bytes v))
     (if ToBoolean (optional_value P (js control))
      then [(USVString (js key), USVString (ToString E (optional_value P (js control))))] else [])
   = control_parameter P key control"
  by (simp add: optional_value_def control_parameter_def utf8_bytes_USVString
      split: option.splits)

text \<open>
  Claim C3. For every combination of values of the four filter controls, \<open>applyFilters\<close>
  does one thing: it assigns \<open>window.location.search\<close>, which navigates to the current
  URL with that query string (every character \<open>toString()\<close> produces stands for
  itself in a query). Read back by the form-urlencoded parser, the query string holds
  exactly the expected parameters: for each control with a non-empty value, its key
  (\<open>category\<close>, \<open>min_price\<close>, \<open>max_price\<close>, \<open>sort\<close>) with that value, and nothing
  else.
\<close>

theorem applyFilters_query:
  "\<exists>query. applyFilters E P = ([Set_location_search query], None)
      \<and> urlencoded_parse query = expected_parameters P"
proof -
  define entry where "entry key control =
      (if ToBoolean (optional_value P (js control))
       then [(USVString (js key), USVString (ToString E (optional_value P (js control))))] else [])"
    for key control
  define params where "params = entry ''category'' ''categoryFilter'' @ entry ''min_price'' ''minPrice''
      @ entry ''max_price'' ''maxPrice'' @ entry ''sort'' ''sortFilter''"
  have run: "applyFilters E P = ([Set_location_search (URLSearchParams_toString params)], None)"
    by (simp add: applyFilters_def Let_def URLSearchParams_append_def params_def entry_def)
  have each: "map (\<lambda>(name, v). (utf8_bytes name, utf8_bytes v)) (entry key control)
                = control_parameter P key control" for key control
    unfolding entry_def by (rule entry_parameter)
  have "urlencoded_parse (URLSearchParams_toString params) = expected_parameters P"
    by (simp only: urlencoded_roundtrip params_def map_append each expected_parameters_def)
  then show ?thesis
    using run by blast
qed

lemma applyFilters_example:
  "applyFilters example_engine shop_page =
     ([Set_location_search (js ''category=rings&sort=price+asc'')], None)"
proof -
  have c: "optional_value shop_page (js ''categoryFilter'') = JStr (js ''rings'')"
    and m: "optional_value shop_page (js ''minPrice'') = JStr []"
    and x: "optional_value shop_page (js ''maxPrice'') = JUndefined"
    and s: "optional_value shop_page (js ''sortFilter'') = JStr (js ''price asc'')"
    by (simp_all add: optional_value_def shop_page_def js_def)
  have u: "USVString (js ''category'') = js ''category''" "USVString (js ''sort'') = js ''sort''"
    "USVString (js ''rings'') = js ''rings''" "USVString (js ''price asc'') = js ''price asc''"
    by (simp_all add: js_def is_lead_surrogate_def is_trail_surrogate_def)
  have e: "urlencoded_string (js ''category'') = js ''category''"
    "urlencoded_string (js ''sort'') = js ''sort''"
    "urlencoded_string (js ''rings'') = js ''rings''"
    "urlencoded_string (js ''price asc'') = js ''price+asc''"
    by (simp_all add: js_def urlencoded_string_def utf8_bytes_def utf8_encode_def
        is_lead_surrogate_def is_trail_surrogate_def urlencoded_octet_def urlencoded_safe_def)
  have "ToBoolean (JStr (js ''rings''))" "ToBoolean (JStr (js ''price asc''))"
    by (simp_all add: js_def)
  then show ?thesis
    unfolding applyFilters_def Let_def c m x s
    by (simp add: URLSearchParams_append_def u e URLSearchParams_toString_def serialize_pair_def)
      (simp add: js_def)
qed

end
